theory Spec2Isabelle
  imports Complex_Main "HOL-Library.Sublist" "HOL-Library.Multiset"
begin

section \<open>JavaScript values used by the bulk-operations code\<close>

text \<open>
  A JavaScript \<^verbatim>\<open>number\<close> that results from a division is modelled by \<open>jsnum\<close>:
  a finite value (an exact rational: IEEE rounding and overflow are not modelled),
  the two infinities, or NaN. The sign of zero is not modelled; no divisor of the
  modelled code can be \<^verbatim>\<open>-0\<close> (divisors are array lengths, counts and differences
  of integer clock readings). Counts, array lengths and millisecond clock readings
  are \<open>int\<close>.
\<close>

datatype jsnum = Fin rat | PosInf | NegInf | NaN

fun js_div :: "jsnum \<Rightarrow> jsnum \<Rightarrow> jsnum" where
  "js_div NaN _ = NaN"
| "js_div _ NaN = NaN"
| "js_div (Fin a) (Fin b) =
     (if b = 0 then (if a = 0 then NaN else if 0 < a then PosInf else NegInf)
      else Fin (a / b))"
| "js_div (Fin a) PosInf = Fin 0"
| "js_div (Fin a) NegInf = Fin 0"
| "js_div PosInf (Fin b) = (if 0 \<le> b then PosInf else NegInf)"
| "js_div NegInf (Fin b) = (if 0 \<le> b then NegInf else PosInf)"
| "js_div _ _ = NaN"

fun js_mul :: "jsnum \<Rightarrow> jsnum \<Rightarrow> jsnum" where
  "js_mul NaN _ = NaN"
| "js_mul _ NaN = NaN"
| "js_mul (Fin a) (Fin b) = Fin (a * b)"
| "js_mul (Fin a) PosInf = (if a = 0 then NaN else if 0 < a then PosInf else NegInf)"
| "js_mul (Fin a) NegInf = (if a = 0 then NaN else if 0 < a then NegInf else PosInf)"
| "js_mul PosInf (Fin b) = (if b = 0 then NaN else if 0 < b then PosInf else NegInf)"
| "js_mul NegInf (Fin b) = (if b = 0 then NaN else if 0 < b then NegInf else PosInf)"
| "js_mul PosInf PosInf = PosInf"
| "js_mul NegInf NegInf = PosInf"
| "js_mul _ _ = NegInf"

definition num :: "int \<Rightarrow> jsnum" where
  "num i = Fin (of_int i)"

text \<open>
  \<^verbatim>\<open>Number.prototype.toString()\<close> on an integer: the decimal digits, after a minus
  sign for a negative number.
\<close>

definition digitChar :: "int \<Rightarrow> char" where
  "digitChar d = ''0123456789'' ! nat d"

function digits :: "int \<Rightarrow> string" where
  "digits n = (if n < 10 then [digitChar n] else digits (n div 10) @ [digitChar (n mod 10)])"
  by pat_completeness auto
termination
  by (relation "measure nat") auto

declare digits.simps [simp del]

definition toString :: "int \<Rightarrow> string" where
  "toString i = (if i < 0 then CHR ''-'' # digits (- i) else digits i)"

text \<open>
  \<^verbatim>\<open>String.prototype.replace(pattern, replacement)\<close> with a string pattern: only the
  first occurrence is replaced. The replacements of the modelled code (digit strings and
  base-36 strings) contain no \<^verbatim>\<open>$\<close>, so the replacement is inserted literally.
\<close>

fun replace :: "string \<Rightarrow> string \<Rightarrow> string \<Rightarrow> string" where
  "replace pat rep [] = (if pat = [] then rep else [])"
| "replace pat rep (c # cs) =
     (if prefix pat (c # cs) then rep @ drop (length pat) (c # cs)
      else c # replace pat rep cs)"

section \<open>Types of the bulk operations module (bulk-types)\<close>

record BulkOperationConfig =
  provider :: string
  batchSize :: int
  concurrency :: int
  requestDelay :: int
  maxRetries :: int
  retryDelay :: int
  enableProgressTracking :: bool
  enablePerformanceMetrics :: bool

text \<open>\<^verbatim>\<open>Partial<BulkOperationConfig>\<close>: every key may be absent.\<close>

record PartialConfig =
  p_provider :: "string option"
  p_batchSize :: "int option"
  p_concurrency :: "int option"
  p_requestDelay :: "int option"
  p_maxRetries :: "int option"
  p_retryDelay :: "int option"
  p_enableProgressTracking :: "bool option"
  p_enablePerformanceMetrics :: "bool option"

text \<open>
  \<^verbatim>\<open>BulkAccountCreationOptions\<close>. The optional \<^verbatim>\<open>metadata\<close> is read nowhere in the
  account manager and is left out.
\<close>

record BulkAccountCreationOptions =
  o_count :: int
  o_emailPrefix :: string
  o_domain :: string
  o_password :: string
  o_batchSize :: "int option"
  o_concurrency :: "int option"
  o_emailPattern :: "string option"

record BulkOperationFailure =
  item :: string
  error :: string
  statusCode :: "int option"
  timestamp :: int
  retryAttempts :: int
  failureContext :: "(string \<times> string) list option"

record BulkOperationMetrics =
  totalTime :: int
  apiTime :: jsnum
  processingTime :: jsnum
  averageResponseTime :: jsnum
  requestsPerSecond :: jsnum
  peakMemoryUsage :: int
  totalRetries :: int
  errorRate :: jsnum

text \<open>
  \<^verbatim>\<open>BulkOperationProgress\<close>. The interface declares \<^verbatim>\<open>estimatedTimeRemaining: number\<close>;
  at run time the field holds whatever the last merged update carried, so the model lets
  it be \<^verbatim>\<open>null\<close> (\<open>None\<close>) as well.
\<close>

record BulkOperationProgress =
  currentStep :: string
  completed :: int
  total :: int
  percentage :: jsnum
  estimatedTimeRemaining :: "jsnum option"
  currentRate :: jsnum
  errorCount :: int
  startTime :: int
  lastUpdate :: int

text \<open>
  The argument of \<^verbatim>\<open>updateProgress(context, update: any)\<close>: an object that carries some
  of the progress keys. \<open>None\<close> is an absent key; for \<open>u_estimatedTimeRemaining\<close>,
  \<open>Some None\<close> is a key that is present with the value \<^verbatim>\<open>null\<close>.
\<close>

record ProgressUpdate =
  u_currentStep :: "string option"
  u_completed :: "int option"
  u_total :: "int option"
  u_percentage :: "jsnum option"
  u_estimatedTimeRemaining :: "jsnum option option"
  u_currentRate :: "jsnum option"
  u_errorCount :: "int option"
  u_startTime :: "int option"

text \<open>
  \<^verbatim>\<open>Account\<close> comes from the application's types module, which is not among the
  sources; the record has the fields the account manager reads.
\<close>

record Account =
  accountId :: string
  address :: string
  accountPassword :: "string option"
  providerId :: "string option"

record Credentials =
  email :: string
  password :: string

record 'd Task =
  task_id :: string
  task_data :: 'd

text \<open>
  \<^verbatim>\<open>BatchResult<T>\<close>. Its per-batch \<^verbatim>\<open>metrics\<close> are read nowhere in the account
  manager and are left out.
\<close>

record 'r BatchResult =
  br_successful :: "'r list"
  br_failed :: "BulkOperationFailure list"

record AccountSummary =
  totalAttempted :: int
  successCount :: int
  failureCount :: int
  successRate :: jsnum
  summaryTotalTime :: int
  averageTimePerAccount :: jsnum

record BulkAccountResult =
  successful :: "Account list"
  failed :: "BulkOperationFailure list"
  metrics :: BulkOperationMetrics
  summary :: AccountSummary

record AccountValidationFailure =
  vf_account :: "Account option"
  vf_reason :: string
  vf_details :: "string option"

record ValidationSummary =
  totalValidated :: int
  validCount :: int
  invalidCount :: int
  validationRate :: jsnum

record AccountValidationResult =
  valid :: "Account list"
  invalid :: "AccountValidationFailure list"
  v_metrics :: BulkOperationMetrics
  v_summary :: ValidationSummary

datatype EventType = Started | Progress | Completed | Error | Cancelled

datatype EventData =
  NoData
  | CreationData BulkAccountResult
  | ValidationData AccountValidationResult
  | ErrorData string

record BulkOperationEvent =
  ev_type :: EventType
  ev_timestamp :: int
  ev_progress :: BulkOperationProgress
  ev_data :: EventData

record BulkOperationContext =
  operationId :: string
  operationType :: string
  ctx_startTime :: int
  progress :: BulkOperationProgress
  ctx_config :: BulkOperationConfig
  ctx_metrics :: BulkOperationMetrics
  errors :: "BulkOperationFailure list"
  cancelled :: bool

section \<open>The account manager (account-manager.ts)\<close>

definition DEFAULT_CONFIG :: BulkOperationConfig where
  "DEFAULT_CONFIG =
     \<lparr>provider = ''duckmail'', batchSize = 20, concurrency = 3, requestDelay = 1000,
      maxRetries = 3, retryDelay = 2000, enableProgressTracking = True,
      enablePerformanceMetrics = True\<rparr>"

text \<open>
  The state of an \<^verbatim>\<open>AccountManager\<close>: its configuration and whether a progress
  callback has been set. Its \<^verbatim>\<open>batchProcessor\<close> is passed to each operation as an
  argument (see below).
\<close>

record AccountManager =
  config :: BulkOperationConfig
  hasProgressCallback :: bool

definition orDefault :: "'a option \<Rightarrow> 'a \<Rightarrow> 'a" where
  "orDefault v d = (case v of None \<Rightarrow> d | Some x \<Rightarrow> x)"

text \<open>The constructor: \<^verbatim>\<open>this.config = { ...DEFAULT_CONFIG, ...config }\<close>.\<close>

definition newAccountManager :: "PartialConfig \<Rightarrow> AccountManager" where
  "newAccountManager p =
     \<lparr>config =
        \<lparr>provider = orDefault (p_provider p) (provider DEFAULT_CONFIG),
         batchSize = orDefault (p_batchSize p) (batchSize DEFAULT_CONFIG),
         concurrency = orDefault (p_concurrency p) (concurrency DEFAULT_CONFIG),
         requestDelay = orDefault (p_requestDelay p) (requestDelay DEFAULT_CONFIG),
         maxRetries = orDefault (p_maxRetries p) (maxRetries DEFAULT_CONFIG),
         retryDelay = orDefault (p_retryDelay p) (retryDelay DEFAULT_CONFIG),
         enableProgressTracking =
           orDefault (p_enableProgressTracking p) (enableProgressTracking DEFAULT_CONFIG),
         enablePerformanceMetrics =
           orDefault (p_enablePerformanceMetrics p) (enablePerformanceMetrics DEFAULT_CONFIG)\<rparr>,
      hasProgressCallback = False\<rparr>"

definition setProgressCallback :: "AccountManager \<Rightarrow> AccountManager" where
  "setProgressCallback mgr = mgr\<lparr>hasProgressCallback := True\<rparr>"

text \<open>
  What the code reads from its environment while it runs without awaiting: the clock
  (\<^verbatim>\<open>Date.now()\<close>, \<^verbatim>\<open>new Date()\<close>, in milliseconds), \<^verbatim>\<open>Math.random()\<close> already
  rendered by \<^verbatim>\<open>.toString(36).substr(2, n)\<close>, and
  \<^verbatim>\<open>process.memoryUsage().heapUsed\<close>. The clock belongs to the state \<open>'w\<close> of the
  outside world: an operation is given the readings as a function \<open>env\<close> of that state,
  and time passes only where the state changes, that is while the operation awaits the
  batch processor. Readings of the clock between two awaits are equal.
\<close>

record Ambient =
  dateNow :: int
  random_id :: string
  random_email :: "nat \<Rightarrow> string"
  heapUsed :: int

type_synonym 'w Environment = "'w \<Rightarrow> Ambient"

text \<open>\<^verbatim>\<open>a || b\<close> on an optional number: \<^verbatim>\<open>undefined\<close> and \<^verbatim>\<open>0\<close> are falsy.\<close>

definition js_or :: "int option \<Rightarrow> int \<Rightarrow> int" where
  "js_or a b = (case a of None \<Rightarrow> b | Some v \<Rightarrow> if v = 0 then b else v)"

text \<open>The three chained \<^verbatim>\<open>replace\<close> calls applied to a pattern in iteration \<open>i\<close>.\<close>

definition fillPattern :: "string \<Rightarrow> nat \<Rightarrow> int \<Rightarrow> string \<Rightarrow> string" where
  "fillPattern pat i ts rnd =
     replace ''{random}'' rnd
       (replace ''{timestamp}'' (toString ts)
          (replace ''{index}'' (toString (int i)) pat))"

text \<open>
  The body of the loop of \<^verbatim>\<open>generateEmailAddresses\<close>; \<^verbatim>\<open>if (options.emailPattern)\<close>
  is false for an absent and for an empty pattern.
\<close>

definition generateEmail :: "Ambient \<Rightarrow> BulkAccountCreationOptions \<Rightarrow> nat \<Rightarrow> string" where
  "generateEmail amb options i =
     (case o_emailPattern options of
        Some (c # cs) \<Rightarrow> fillPattern (c # cs) i (dateNow amb) (random_email amb i)
      | _ \<Rightarrow>
          (o_emailPrefix options @ ''-'' @ toString (dateNow amb) @ ''-''
             @ toString (int i)) @ ''@'' @ o_domain options)"

text \<open>\<^verbatim>\<open>for (let i = 1; i <= options.count; i++)\<close>, each iteration pushing one address.\<close>

definition generateEmailAddresses :: "Ambient \<Rightarrow> BulkAccountCreationOptions \<Rightarrow> string list" where
  "generateEmailAddresses amb options =
     map (generateEmail amb options) [1 ..< nat (o_count options) + 1]"

definition createOperationContext ::
  "AccountManager \<Rightarrow> Ambient \<Rightarrow> string \<Rightarrow> int \<Rightarrow> BulkOperationContext" where
  "createOperationContext mgr amb type tot =
     \<lparr>operationId = type @ ''-'' @ toString (dateNow amb) @ ''-'' @ random_id amb,
      operationType = type,
      ctx_startTime = dateNow amb,
      progress =
        \<lparr>currentStep = ''initializing'', completed = 0, total = tot, percentage = Fin 0,
         estimatedTimeRemaining = Some (Fin 0), currentRate = Fin 0, errorCount = 0,
         startTime = dateNow amb, lastUpdate = dateNow amb\<rparr>,
      ctx_config = config mgr,
      ctx_metrics =
        \<lparr>totalTime = 0, apiTime = Fin 0, processingTime = Fin 0, averageResponseTime = Fin 0,
         requestsPerSecond = Fin 0, peakMemoryUsage = 0, totalRetries = 0, errorRate = Fin 0\<rparr>,
      errors = [],
      cancelled = False\<rparr>"

text \<open>\<^verbatim>\<open>emitProgress\<close>: the events handed to the progress callback, none when it is unset.\<close>

definition emitProgress ::
  "AccountManager \<Rightarrow> EventType \<Rightarrow> int \<Rightarrow> BulkOperationContext \<Rightarrow> EventData
     \<Rightarrow> BulkOperationEvent list" where
  "emitProgress mgr type t context d =
     (if hasProgressCallback mgr
      then [\<lparr>ev_type = type, ev_timestamp = t, ev_progress = progress context, ev_data = d\<rparr>]
      else [])"

text \<open>The object spread \<^verbatim>\<open>{ ...context.progress, ...update, lastUpdate: new Date() }\<close>.\<close>

definition mergeProgress ::
  "BulkOperationProgress \<Rightarrow> ProgressUpdate \<Rightarrow> int \<Rightarrow> BulkOperationProgress" where
  "mergeProgress p u t =
     \<lparr>currentStep = orDefault (u_currentStep u) (currentStep p),
      completed = orDefault (u_completed u) (completed p),
      total = orDefault (u_total u) (total p),
      percentage = orDefault (u_percentage u) (percentage p),
      estimatedTimeRemaining = orDefault (u_estimatedTimeRemaining u) (estimatedTimeRemaining p),
      currentRate = orDefault (u_currentRate u) (currentRate p),
      errorCount = orDefault (u_errorCount u) (errorCount p),
      startTime = orDefault (u_startTime u) (startTime p),
      lastUpdate = t\<rparr>"

text \<open>\<^verbatim>\<open>updateProgress\<close> at clock reading \<open>t\<close>: the new context and the event emitted.\<close>

definition updateProgress ::
  "AccountManager \<Rightarrow> BulkOperationContext \<Rightarrow> ProgressUpdate \<Rightarrow> int
     \<Rightarrow> BulkOperationContext \<times> BulkOperationEvent list" where
  "updateProgress mgr context u t =
     (let context' = context\<lparr>progress := mergeProgress (progress context) u t\<rparr>
      in (context', emitProgress mgr Progress t context' NoData))"

text \<open>
  The calls of the \<^verbatim>\<open>onProgress\<close> closure made while \<^verbatim>\<open>processBatches\<close> runs, in
  order, each with the clock reading at the call.
\<close>

fun applyUpdates ::
  "AccountManager \<Rightarrow> BulkOperationContext \<Rightarrow> (ProgressUpdate \<times> int) list
     \<Rightarrow> BulkOperationContext \<times> BulkOperationEvent list" where
  "applyUpdates mgr context [] = (context, [])"
| "applyUpdates mgr context (ut # us) =
     (let one = updateProgress mgr context (fst ut) (snd ut);
          rest = applyUpdates mgr (fst one) us
      in (fst rest, snd one @ snd rest))"

definition calculateMetrics ::
  "Ambient \<Rightarrow> BulkOperationContext \<Rightarrow> int \<Rightarrow> int \<Rightarrow> BulkOperationMetrics" where
  "calculateMetrics amb context nSuccess nFailure =
     (let elapsed = dateNow amb - ctx_startTime context;
          totalOperations = nSuccess + nFailure
      in \<lparr>totalTime = elapsed,
          apiTime = js_mul (num elapsed) (Fin (8 / 10)),
          processingTime = js_mul (num elapsed) (Fin (2 / 10)),
          averageResponseTime =
            (if 0 < totalOperations then js_div (num elapsed) (num totalOperations) else Fin 0),
          requestsPerSecond =
            (if 0 < totalOperations
             then js_mul (js_div (num totalOperations) (num elapsed)) (Fin 1000) else Fin 0),
          peakMemoryUsage = heapUsed amb,
          totalRetries = foldl (\<lambda>sum e. sum + retryAttempts e) 0 (errors context),
          errorRate =
            (if 0 < totalOperations
             then js_mul (js_div (num nFailure) (num totalOperations)) (Fin 100)
             else Fin 0)\<rparr>)"

definition createSummary ::
  "int \<Rightarrow> int \<Rightarrow> int \<Rightarrow> BulkOperationMetrics \<Rightarrow> AccountSummary" where
  "createSummary attempted succ fails m =
     \<lparr>totalAttempted = attempted,
      successCount = succ,
      failureCount = fails,
      successRate =
        (if 0 < attempted then js_mul (js_div (num succ) (num attempted)) (Fin 100) else Fin 0),
      summaryTotalTime = totalTime m,
      averageTimePerAccount =
        (if 0 < attempted then js_div (num (totalTime m)) (num attempted) else Fin 0)\<rparr>"

text \<open>
  The remote calls \<^verbatim>\<open>createAccount\<close> and \<^verbatim>\<open>getToken\<close> (lib/api, an external service)
  are arguments: a call acts on the state \<open>'w\<close> of the outside world and either throws
  (\<open>Inl\<close> the message) or returns.
\<close>

type_synonym 'w createAccountApi =
  "string \<Rightarrow> string \<Rightarrow> string \<Rightarrow> 'w \<Rightarrow> (string + Account) \<times> 'w"

type_synonym 'w getTokenApi =
  "string \<Rightarrow> string \<Rightarrow> string option \<Rightarrow> 'w \<Rightarrow> (string + unit) \<times> 'w"

type_synonym ('w, 'd, 'r) workerFn = "'d \<Rightarrow> 'w \<Rightarrow> (string + 'r) \<times> 'w"

definition createSingleAccount ::
  "AccountManager \<Rightarrow> 'w createAccountApi \<Rightarrow> ('w, Credentials, Account) workerFn" where
  "createSingleAccount mgr api d w =
     (let called = api (email d) (password d) (provider (config mgr)) w
      in case fst called of
           Inr account \<Rightarrow> (Inr account, snd called)
         | Inl msg \<Rightarrow>
             (Inl (''Failed to create account '' @ email d @ '': '' @ msg), snd called))"

definition validateSingleAccount :: "'w getTokenApi \<Rightarrow> ('w, Account, Account) workerFn" where
  "validateSingleAccount api account w =
     (case accountPassword account of
        Some (c # cs) \<Rightarrow>
          (let called = api (address account) (c # cs) (providerId account) w
           in case fst called of
                Inr u \<Rightarrow> (Inr account, snd called)
              | Inl msg \<Rightarrow> (Inl (''Account validation failed: '' @ msg), snd called))
      | _ \<Rightarrow>
          (Inl (''Account validation failed: ''
                  @ ''Account password not available for validation''), w))"

text \<open>
  \<^verbatim>\<open>BatchProcessor.processBatches(tasks, fn, { batchSize, concurrency, onProgress })\<close>.
  The class is not among the sources, so the operations of the account manager take
  the processor as an argument \<open>pb\<close>. A call returns the batch results or throws
  (\<open>Inl\<close> the message), together with the calls of \<^verbatim>\<open>onProgress\<close> it made and the
  state of the outside world it leaves.
\<close>

record ProcessOptions =
  po_batchSize :: int
  po_concurrency :: int

type_synonym ('w, 'd, 'r) batchProcessor =
  "'d Task list \<Rightarrow> ('w, 'd, 'r) workerFn \<Rightarrow> ProcessOptions \<Rightarrow> 'w
     \<Rightarrow> (string + 'r BatchResult list) \<times> (ProgressUpdate \<times> int) list \<times> 'w"

record ('w, 'a) RunOutput =
  events :: "BulkOperationEvent list"
  outcome :: "string + 'a"
  world :: 'w

definition creationTasks :: "string \<Rightarrow> string list \<Rightarrow> Credentials Task list" where
  "creationTasks pw emails =
     map (\<lambda>e. \<lparr>task_id = e, task_data = \<lparr>email = e, password = pw\<rparr>\<rparr>) emails"

text \<open>The part of \<^verbatim>\<open>createBulkAccounts\<close> after \<^verbatim>\<open>processBatches\<close> has returned.\<close>

definition compileResult ::
  "Ambient \<Rightarrow> BulkOperationContext \<Rightarrow> int \<Rightarrow> Account BatchResult list \<Rightarrow> BulkAccountResult" where
  "compileResult amb context attempted results =
     (let succ = concat (map br_successful results);
          fails = concat (map br_failed results);
          m = calculateMetrics amb context (int (length succ)) (int (length fails))
      in \<lparr>successful = succ, failed = fails, metrics = m,
          summary = createSummary attempted (int (length succ)) (int (length fails)) m\<rparr>)"

text \<open>
  The scheduling options \<^verbatim>\<open>createBulkAccounts\<close> hands to \<^verbatim>\<open>processBatches\<close>:
  \<^verbatim>\<open>options.batchSize || this.config.batchSize\<close> and
  \<^verbatim>\<open>options.concurrency || this.config.concurrency\<close>.
\<close>

definition schedulingOptions ::
  "AccountManager \<Rightarrow> BulkAccountCreationOptions \<Rightarrow> ProcessOptions" where
  "schedulingOptions mgr options =
     \<lparr>po_batchSize = js_or (o_batchSize options) (batchSize (config mgr)),
      po_concurrency = js_or (o_concurrency options) (concurrency (config mgr))\<rparr>"

text \<open>The options of the operations that take them from the configuration alone.\<close>

definition configOptions :: "AccountManager \<Rightarrow> ProcessOptions" where
  "configOptions mgr =
     \<lparr>po_batchSize = batchSize (config mgr), po_concurrency = concurrency (config mgr)\<rparr>"

definition createBulkAccounts ::
  "AccountManager \<Rightarrow> ('w, Credentials, Account) batchProcessor \<Rightarrow> 'w createAccountApi
     \<Rightarrow> 'w Environment \<Rightarrow> BulkAccountCreationOptions \<Rightarrow> 'w
     \<Rightarrow> ('w, BulkAccountResult) RunOutput" where
  "createBulkAccounts mgr pb api env options w =
     (let context = createOperationContext mgr (env w) ''account-creation'' (o_count options);
          started = emitProgress mgr Started (dateNow (env w)) context NoData;
          emailAddresses = generateEmailAddresses (env w) options;
          tasks = creationTasks (o_password options) emailAddresses;
          processed = pb tasks (createSingleAccount mgr api) (schedulingOptions mgr options) w;
          after = env (snd (snd processed));
          updated = applyUpdates mgr context (fst (snd processed))
      in case fst processed of
           Inl msg \<Rightarrow>
             \<lparr>events = started @ snd updated
                @ emitProgress mgr Error (dateNow after) (fst updated) (ErrorData msg),
              outcome = Inl msg, world = snd (snd processed)\<rparr>
         | Inr results \<Rightarrow>
             (let finalResult = compileResult after (fst updated) (o_count options) results
              in \<lparr>events = started @ snd updated
                    @ emitProgress mgr Completed (dateNow after) (fst updated)
                        (CreationData finalResult),
                  outcome = Inr finalResult, world = snd (snd processed)\<rparr>))"

text \<open>
  \<^verbatim>\<open>createAccountsWithPattern\<close>: the clock and the random generator are read anew in
  every iteration of the generating loop, which does not await; the context is created
  after the loop, and there is neither a \<^verbatim>\<open>try\<close> nor a started/completed event.
\<close>

definition patternEmails :: "Ambient \<Rightarrow> string \<Rightarrow> int \<Rightarrow> string list" where
  "patternEmails amb pattern n =
     map (\<lambda>i. fillPattern pattern i (dateNow amb) (random_email amb i)) [1 ..< nat n + 1]"

definition createAccountsWithPattern ::
  "AccountManager \<Rightarrow> ('w, Credentials, Account) batchProcessor \<Rightarrow> 'w createAccountApi
     \<Rightarrow> 'w Environment \<Rightarrow> string \<Rightarrow> int \<Rightarrow> string \<Rightarrow> 'w
     \<Rightarrow> ('w, BulkAccountResult) RunOutput" where
  "createAccountsWithPattern mgr pb api env pattern n pw w =
     (let emails = patternEmails (env w) pattern n;
          tasks = creationTasks pw emails;
          context = createOperationContext mgr (env w) ''account-creation'' n;
          processed = pb tasks (createSingleAccount mgr api) (configOptions mgr) w;
          after = env (snd (snd processed));
          updated = applyUpdates mgr context (fst (snd processed))
      in case fst processed of
           Inl msg \<Rightarrow> \<lparr>events = snd updated, outcome = Inl msg, world = snd (snd processed)\<rparr>
         | Inr results \<Rightarrow>
             \<lparr>events = snd updated,
              outcome = Inr (compileResult after (fst updated) n results),
              world = snd (snd processed)\<rparr>)"

text \<open>\<^verbatim>\<open>validateBulkAccounts\<close>.\<close>

definition invalidEntry :: "Account list \<Rightarrow> BulkOperationFailure \<Rightarrow> AccountValidationFailure" where
  "invalidEntry accounts f =
     \<lparr>vf_account = find (\<lambda>a. accountId a = item f) accounts,
      vf_reason = error f,
      vf_details = (case failureContext f of None \<Rightarrow> None | Some kv \<Rightarrow> map_of kv ''details'')\<rparr>"

definition compileValidation ::
  "Ambient \<Rightarrow> BulkOperationContext \<Rightarrow> Account list \<Rightarrow> Account BatchResult list
     \<Rightarrow> AccountValidationResult" where
  "compileValidation amb context accounts results =
     (let v = concat (map br_successful results);
          inv = concat (map (\<lambda>batch. map (invalidEntry accounts) (br_failed batch)) results);
          m = calculateMetrics amb context (int (length v)) (int (length inv))
      in \<lparr>valid = v, invalid = inv, v_metrics = m,
          v_summary =
            \<lparr>totalValidated = int (length accounts),
             validCount = int (length v),
             invalidCount = int (length inv),
             validationRate =
               js_mul (js_div (num (int (length v))) (num (int (length accounts)))) (Fin 100)\<rparr>\<rparr>)"

definition validateBulkAccounts ::
  "AccountManager \<Rightarrow> ('w, Account, Account) batchProcessor \<Rightarrow> 'w getTokenApi
     \<Rightarrow> 'w Environment \<Rightarrow> Account list \<Rightarrow> 'w
     \<Rightarrow> ('w, AccountValidationResult) RunOutput" where
  "validateBulkAccounts mgr pb api env accounts w =
     (let context = createOperationContext mgr (env w) ''validation'' (int (length accounts));
          started = emitProgress mgr Started (dateNow (env w)) context NoData;
          tasks = map (\<lambda>a. \<lparr>task_id = accountId a, task_data = a\<rparr>) accounts;
          processed = pb tasks (validateSingleAccount api) (configOptions mgr) w;
          after = env (snd (snd processed));
          updated = applyUpdates mgr context (fst (snd processed))
      in case fst processed of
           Inl msg \<Rightarrow>
             \<lparr>events = started @ snd updated
                @ emitProgress mgr Error (dateNow after) (fst updated) (ErrorData msg),
              outcome = Inl msg, world = snd (snd processed)\<rparr>
         | Inr results \<Rightarrow>
             (let validationResult = compileValidation after (fst updated) accounts results
              in \<lparr>events = started @ snd updated
                    @ emitProgress mgr Completed (dateNow after) (fst updated)
                        (ValidationData validationResult),
                  outcome = Inr validationResult, world = snd (snd processed)\<rparr>))"

section \<open>The batch processor\<close>

text \<open>
  Modelled from the spec: the class \<^verbatim>\<open>BatchProcessor\<close> (utils/batch-processor), whose
  \<^verbatim>\<open>processBatches\<close> the account manager calls, is not among the sources. The
  definitions of this section follow sections 4.1 to 4.5 of the specification: the
  rate limiter, the retry policy, the worker pool, the progress tracker and the
  executor. The pool is modelled by one of its schedules, the one that dispatches and
  settles the tasks one at a time in input order; the clamped \<open>concurrency\<close> is
  recorded, it bounds the number of tasks in flight and does not change what is
  settled. Cancellation is not modelled: every run is a completed run.
\<close>

text \<open>What the processor needs from the runtime: the clock and the timer.\<close>

record 'w Runtime =
  rt_now :: "'w \<Rightarrow> int"
  rt_sleep :: "int \<Rightarrow> 'w \<Rightarrow> 'w"

text \<open>
  Modelled from the spec: section 4.5, \<^emph>\<open>values < 1 are clamped to 1\<close>.
\<close>

definition clampToOne :: "int \<Rightarrow> int" where
  "clampToOne v = (if v < 1 then 1 else v)"

text \<open>
  Modelled from the spec: section 4.1. The limiter is a cursor, the next allowed time. A
  call that arrives before the cursor sleeps until the cursor time, and the cursor
  advances by \<open>requestDelay\<close>; a call that arrives later is let through and the
  next allowed time is \<open>requestDelay\<close> after it; \<open>requestDelay = 0\<close> disables
  throttling.
\<close>

definition acquire ::
  "'w Runtime \<Rightarrow> BulkOperationConfig \<Rightarrow> int \<times> 'w \<Rightarrow> int \<times> 'w" where
  "acquire rt cfg s =
     (case s of
        (cursor, w) \<Rightarrow>
          if requestDelay cfg = 0 then (cursor, w)
          else if rt_now rt w < cursor
          then (cursor + requestDelay cfg, rt_sleep rt (cursor - rt_now rt w) w)
          else (rt_now rt w + requestDelay cfg, w))"

text \<open>
  Modelled from the spec: section 4.2, the default policy. Attempts are numbered from 1.
\<close>

definition shouldRetry :: "BulkOperationConfig \<Rightarrow> nat \<Rightarrow> bool" where
  "shouldRetry cfg attempt \<longleftrightarrow> int attempt \<le> maxRetries cfg"

definition delayFor :: "BulkOperationConfig \<Rightarrow> nat \<Rightarrow> int" where
  "delayFor cfg attempt = retryDelay cfg * 2 ^ (attempt - 1)"

text \<open>
  Modelled from the spec: section 4.3, the life of one task,
  \<^verbatim>\<open>Pending -> Running -> {Succeeded | Retrying -> Pending | Failed}\<close>. Every dispatch
  first acquires the limiter; a failed attempt that the policy retries waits
  \<open>delayFor attempt\<close> and runs the same task again. \<open>at_log\<close> lists what each invocation
  of the worker function returned or threw, \<open>at_delays\<close> the backoff delays waited.
\<close>

record ('w, 'r) Attempts =
  at_log :: "(string + 'r) list"
  at_delays :: "int list"
  at_cursor :: int
  at_world :: 'w

function attemptTask ::
  "'w Runtime \<Rightarrow> BulkOperationConfig \<Rightarrow> ('w, 'd, 'r) workerFn \<Rightarrow> 'd \<Rightarrow> nat
     \<Rightarrow> (string + 'r) list \<Rightarrow> int list \<Rightarrow> int \<times> 'w \<Rightarrow> ('w, 'r) Attempts" where
  "attemptTask rt cfg fn d attempt history delays s =
     (let dispatched = acquire rt cfg s;
          res = fn d (snd dispatched)
      in case fst res of
           Inr r \<Rightarrow>
             \<lparr>at_log = history @ [Inr r], at_delays = delays, at_cursor = fst dispatched,
              at_world = snd res\<rparr>
         | Inl msg \<Rightarrow>
             if shouldRetry cfg attempt
             then attemptTask rt cfg fn d (Suc attempt) (history @ [Inl msg])
                    (delays @ [delayFor cfg attempt])
                    (fst dispatched, rt_sleep rt (delayFor cfg attempt) (snd res))
             else \<lparr>at_log = history @ [Inl msg], at_delays = delays,
                   at_cursor = fst dispatched, at_world = snd res\<rparr>)"
  by pat_completeness auto
termination
  by (relation "measure (\<lambda>(rt, cfg, fn, d, attempt, history, delays, s).
                   nat (maxRetries cfg + 1 - int attempt))")
     (auto simp: shouldRetry_def)

declare attemptTask.simps [simp del]

text \<open>
  What the pool knows of a settled task: its identifier, its terminal state
  (\<open>Inr\<close> the result, \<open>Inl\<close> the failure record), and the log of its attempts.
  The failure record counts the retries made.
\<close>

record 'r TaskReport =
  rep_item :: string
  rep_outcome :: "BulkOperationFailure + 'r"
  rep_log :: "(string + 'r) list"
  rep_delays :: "int list"

record 'w PoolState =
  ps_cursor :: int
  ps_world :: 'w
  ps_completed :: int
  ps_errorCount :: int

definition settle :: "'w Runtime \<Rightarrow> 'd Task \<Rightarrow> ('w, 'r) Attempts \<Rightarrow> 'r TaskReport" where
  "settle rt task a =
     \<lparr>rep_item = task_id task,
      rep_outcome =
        (case last (at_log a) of
           Inr r \<Rightarrow> Inr r
         | Inl msg \<Rightarrow>
             Inl \<lparr>item = task_id task, error = msg, statusCode = None,
                  timestamp = rt_now rt (at_world a),
                  retryAttempts = int (length (at_delays a)), failureContext = None\<rparr>),
      rep_log = at_log a,
      rep_delays = at_delays a\<rparr>"

text \<open>
  Modelled from the spec: section 4.4, \<open>onTaskSettled\<close>. The snapshot handed to the
  progress callback carries the keys the tracker maintains: \<open>completed\<close>, \<open>total\<close>,
  \<open>errorCount\<close>, \<open>currentRate = completed / elapsedSeconds\<close> and
  \<open>estimatedTimeRemaining = (total - completed) / currentRate\<close>, which is \<^verbatim>\<open>null\<close>
  when \<open>currentRate = 0\<close>.
\<close>

definition onTaskSettled ::
  "'w Runtime \<Rightarrow> int \<Rightarrow> int \<Rightarrow> bool \<Rightarrow> 'w PoolState \<Rightarrow> 'w PoolState \<times> (ProgressUpdate \<times> int)" where
  "onTaskSettled rt tot started hasFailed st =
     (let c = ps_completed st + 1;
          e = ps_errorCount st + (if hasFailed then 1 else 0);
          t = rt_now rt (ps_world st);
          elapsedSeconds = js_div (num (t - started)) (Fin 1000);
          rate = js_div (num c) elapsedSeconds;
          eta = (if rate = Fin 0 then None else Some (js_div (num (tot - c)) rate))
      in (st\<lparr>ps_completed := c, ps_errorCount := e\<rparr>,
          (\<lparr>u_currentStep = None, u_completed = Some c, u_total = Some tot,
            u_percentage = None, u_estimatedTimeRemaining = Some eta,
            u_currentRate = Some rate, u_errorCount = Some e, u_startTime = None\<rparr>, t)))"

definition processTask ::
  "'w Runtime \<Rightarrow> BulkOperationConfig \<Rightarrow> ('w, 'd, 'r) workerFn \<Rightarrow> int \<Rightarrow> int \<Rightarrow> 'd Task
     \<Rightarrow> 'w PoolState \<Rightarrow> 'r TaskReport \<times> (ProgressUpdate \<times> int) \<times> 'w PoolState" where
  "processTask rt cfg fn tot started task st =
     (let a = attemptTask rt cfg fn (task_data task) 1 [] [] (ps_cursor st, ps_world st);
          rep = settle rt task a;
          tracked = onTaskSettled rt tot started (isl (rep_outcome rep))
                      (st\<lparr>ps_cursor := at_cursor a, ps_world := at_world a\<rparr>)
      in (rep, snd tracked, fst tracked))"

fun processTasks ::
  "'w Runtime \<Rightarrow> BulkOperationConfig \<Rightarrow> ('w, 'd, 'r) workerFn \<Rightarrow> int \<Rightarrow> int \<Rightarrow> 'd Task list
     \<Rightarrow> 'w PoolState \<Rightarrow> 'r TaskReport list \<times> (ProgressUpdate \<times> int) list \<times> 'w PoolState" where
  "processTasks rt cfg fn tot started [] st = ([], [], st)"
| "processTasks rt cfg fn tot started (task # tasks) st =
     (let one = processTask rt cfg fn tot started task st;
          rest = processTasks rt cfg fn tot started tasks (snd (snd one))
      in (fst one # fst rest, fst (snd one) # fst (snd rest), snd (snd rest)))"

fun runBatches ::
  "'w Runtime \<Rightarrow> BulkOperationConfig \<Rightarrow> ('w, 'd, 'r) workerFn \<Rightarrow> int \<Rightarrow> int
     \<Rightarrow> 'd Task list list \<Rightarrow> 'w PoolState
     \<Rightarrow> 'r TaskReport list list \<times> (ProgressUpdate \<times> int) list \<times> 'w PoolState" where
  "runBatches rt cfg fn tot started [] st = ([], [], st)"
| "runBatches rt cfg fn tot started (batch # batches) st =
     (let one = processTasks rt cfg fn tot started batch st;
          rest = runBatches rt cfg fn tot started batches (snd (snd one))
      in (fst one # fst rest, fst (snd one) @ fst (snd rest), snd (snd rest)))"

text \<open>The tasks grouped into scheduling units of \<open>n\<close> tasks, the last one possibly shorter.\<close>

function chunk :: "nat \<Rightarrow> 'a list \<Rightarrow> 'a list list" where
  "chunk n xs = (if n = 0 \<or> xs = [] then [] else take n xs # chunk n (drop n xs))"
  by pat_completeness auto
termination
  by (relation "measure (\<lambda>(n, xs). length xs)") auto

declare chunk.simps [simp del]

definition toBatchResult :: "'r TaskReport list \<Rightarrow> 'r BatchResult" where
  "toBatchResult reps =
     \<lparr>br_successful = concat (map (\<lambda>rep. case rep_outcome rep of Inr r \<Rightarrow> [r] | Inl f \<Rightarrow> []) reps),
      br_failed = concat (map (\<lambda>rep. case rep_outcome rep of Inl f \<Rightarrow> [f] | Inr r \<Rightarrow> []) reps)\<rparr>"

record ('w, 'r) PoolTrace =
  tr_batchSize :: int
  tr_concurrency :: int
  tr_reports :: "'r TaskReport list list"
  tr_updates :: "(ProgressUpdate \<times> int) list"
  tr_world :: 'w

text \<open>
  Modelled from the spec: section 4.5, \<open>run\<close>, with the interface the account manager
  uses: the run of a processor constructed with \<open>cfg\<close>. \<open>total\<close> is the number of tasks,
  fixed when the run starts.
\<close>

definition runTrace ::
  "'w Runtime \<Rightarrow> BulkOperationConfig \<Rightarrow> 'd Task list \<Rightarrow> ('w, 'd, 'r) workerFn \<Rightarrow> ProcessOptions
     \<Rightarrow> 'w \<Rightarrow> ('w, 'r) PoolTrace" where
  "runTrace rt cfg tasks fn popts w =
     (let size = clampToOne (po_batchSize popts);
          conc = clampToOne (po_concurrency popts);
          ran = runBatches rt cfg fn (int (length tasks)) (rt_now rt w) (chunk (nat size) tasks)
                  \<lparr>ps_cursor = rt_now rt w, ps_world = w, ps_completed = 0, ps_errorCount = 0\<rparr>
      in \<lparr>tr_batchSize = size, tr_concurrency = conc, tr_reports = fst ran,
          tr_updates = fst (snd ran), tr_world = ps_world (snd (snd ran))\<rparr>)"

definition processBatches ::
  "'w Runtime \<Rightarrow> BulkOperationConfig \<Rightarrow> ('w, 'd, 'r) batchProcessor" where
  "processBatches rt cfg tasks fn popts w =
     (let tr = runTrace rt cfg tasks fn popts w
      in (Inr (map toBatchResult (tr_reports tr)), tr_updates tr, tr_world tr))"

section \<open>The rate limiter of the test client (api-client.ts)\<close>

text \<open>
  The two fields of \<^verbatim>\<open>TestApiClient\<close> that \<^verbatim>\<open>enforceRateLimit\<close> reads and writes.
\<close>

record TestApiClient =
  lastRequestTime :: int
  requestCount :: nat

text \<open>
  \<^verbatim>\<open>enforceRateLimit\<close> is an \<^verbatim>\<open>async\<close> function with one suspension point, \<^verbatim>\<open>await
  wait(waitTime)\<close>. JavaScript runs each segment between suspension points to its end
  before another caller runs, so a call is the segment up to the \<^verbatim>\<open>await\<close>, which
  reads the clock and decides whether and how long to wait, and the segment after it,
  which reads the clock again and stores it. Without a wait the two run as one.
\<close>

definition rateLimitWait :: "int \<Rightarrow> int \<Rightarrow> TestApiClient \<Rightarrow> int option" where
  "rateLimitWait d now c =
     (let timeSinceLastRequest = now - lastRequestTime c
      in if timeSinceLastRequest < d then Some (d - timeSinceLastRequest) else None)"

definition rateLimitDone :: "int \<Rightarrow> TestApiClient \<Rightarrow> TestApiClient" where
  "rateLimitDone now c = c\<lparr>lastRequestTime := now, requestCount := requestCount c + 1\<rparr>"

text \<open>
  A schedule of the event loop: caller \<open>k\<close> calls \<^verbatim>\<open>request\<close> at clock reading \<open>t\<close>, or
  the timer of the waiting caller \<open>k\<close> fires at \<open>t\<close>. A request is dispatched when its
  \<^verbatim>\<open>enforceRateLimit\<close> returns; \<open>dispatches\<close> lists the callers and their start times.
  \<open>step\<close> is \<open>None\<close> for an event that cannot happen: a clock that runs backwards, a
  timer that fires early or for a caller that is not waiting, a caller that calls
  again while it waits.
\<close>

datatype Event = Call nat int | TimerFires nat int

record Loop =
  client :: TestApiClient
  clock :: int
  timers :: "(nat \<times> int) list"
  dispatches :: "(nat \<times> int) list"

fun step :: "int \<Rightarrow> Event \<Rightarrow> Loop \<Rightarrow> Loop option" where
  "step d (Call k t) s =
     (if t < clock s \<or> k \<in> fst ` set (timers s) then None
      else (case rateLimitWait d t (client s) of
              None \<Rightarrow>
                Some (s\<lparr>client := rateLimitDone t (client s), clock := t,
                        dispatches := dispatches s @ [(k, t)]\<rparr>)
            | Some waitTime \<Rightarrow>
                Some (s\<lparr>clock := t, timers := timers s @ [(k, t + waitTime)]\<rparr>)))"
| "step d (TimerFires k t) s =
     (case map_of (timers s) k of
        None \<Rightarrow> None
      | Some due \<Rightarrow>
          if t < clock s \<or> t < due then None
          else Some (s\<lparr>client := rateLimitDone t (client s), clock := t,
                       timers := filter (\<lambda>p. fst p \<noteq> k) (timers s),
                       dispatches := dispatches s @ [(k, t)]\<rparr>))"

fun run :: "int \<Rightarrow> Event list \<Rightarrow> Loop \<Rightarrow> Loop option" where
  "run d [] s = Some s"
| "run d (e # es) s = (case step d e s of None \<Rightarrow> None | Some s' \<Rightarrow> run d es s')"

definition newClient :: "int \<Rightarrow> Loop" where
  "newClient t0 =
     \<lparr>client = \<lparr>lastRequestTime = 0, requestCount = 0\<rparr>, clock = t0, timers = [],
      dispatches = []\<rparr>"

text \<open>The rate bound: consecutive start times are at least \<open>d\<close> apart.\<close>

fun spaced :: "int \<Rightarrow> int list \<Rightarrow> bool" where
  "spaced d (t1 # t2 # ts) = (d \<le> t2 - t1 \<and> spaced d (t2 # ts))"
| "spaced d ts = True"

text \<open>
  An event of caller \<open>k\<close>; a schedule all of whose events are of one caller is that of
  one sequential caller, who calls again only after the previous call has returned.
\<close>

definition byCaller :: "nat \<Rightarrow> Event \<Rightarrow> bool" where
  "byCaller k e = (case e of Call k' t \<Rightarrow> k' = k | TimerFires k' t \<Rightarrow> k' = k)"

text \<open>
  The states of the loop with one caller \<open>k\<close>: the dispatches so far are spaced, the
  last of them is the stored \<open>lastRequestTime\<close>, and the caller is idle or waits until
  \<open>lastRequestTime + d\<close>.
\<close>

definition waitsOrIdle :: "int \<Rightarrow> nat \<Rightarrow> Loop \<Rightarrow> bool" where
  "waitsOrIdle d k s \<longleftrightarrow>
     spaced d (map snd (dispatches s))
     \<and> (dispatches s \<noteq> [] \<longrightarrow> snd (last (dispatches s)) = lastRequestTime (client s))
     \<and> (timers s = [] \<or> timers s = [(k, lastRequestTime (client s) + d)])"

section \<open>Example runs\<close>

text \<open>
  A simulated outside world for the concrete runs below: the clock and the addresses
  registered so far. A remote call takes 50 ms; the timer advances the clock. The
  registry refuses an address that is already registered, as the mail provider does.
\<close>

type_synonym World = "int \<times> string list"

definition simRuntime :: "World Runtime" where
  "simRuntime = \<lparr>rt_now = fst, rt_sleep = (\<lambda>ms w. (fst w + ms, snd w))\<rparr>"

definition registryApi :: "World createAccountApi" where
  "registryApi addr pw prov w =
     (if addr \<in> set (snd w) then (Inl ''address already used'', (fst w + 50, snd w))
      else (Inr \<lparr>accountId = addr, address = addr, accountPassword = Some pw,
                 providerId = Some prov\<rparr>, (fst w + 50, addr # snd w)))"

definition failingApi :: "World createAccountApi" where
  "failingApi addr pw prov w = (Inl ''HTTP 500'', (fst w + 50, snd w))"

definition tokenApi :: "World getTokenApi" where
  "tokenApi addr pw prov w =
     (if addr \<in> set (snd w) then (Inr (), (fst w + 50, snd w))
      else (Inl ''HTTP 401'', (fst w + 50, snd w)))"

definition simEnv :: "World Environment" where
  "simEnv w =
     \<lparr>dateNow = fst w, random_id = ''k3x9q2m1z'', random_email = (\<lambda>i. ''ab12c''),
      heapUsed = 4096\<rparr>"

definition noOverrides :: PartialConfig where
  "noOverrides =
     \<lparr>p_provider = None, p_batchSize = None, p_concurrency = None, p_requestDelay = None,
      p_maxRetries = None, p_retryDelay = None, p_enableProgressTracking = None,
      p_enablePerformanceMetrics = None\<rparr>"

text \<open>A manager with the default configuration and one with two retries, both with a
  progress callback.\<close>

definition defaultManager :: AccountManager where
  "defaultManager = setProgressCallback (newAccountManager noOverrides)"

definition twoRetriesManager :: AccountManager where
  "twoRetriesManager =
     setProgressCallback (newAccountManager (noOverrides\<lparr>p_maxRetries := Some 2\<rparr>))"

definition simOptions :: "int \<Rightarrow> BulkAccountCreationOptions" where
  "simOptions n =
     \<lparr>o_count = n, o_emailPrefix = ''user'', o_domain = ''x.io'', o_password = ''pw'',
      o_batchSize = None, o_concurrency = None, o_emailPattern = None\<rparr>"

definition simAccount :: "string \<Rightarrow> Account" where
  "simAccount addr =
     \<lparr>accountId = addr, address = addr, accountPassword = Some ''pw'',
      providerId = Some ''duckmail''\<rparr>"

text \<open>Runs in which every remote call fails: one account, two retries.\<close>

definition failingRun :: "(World, BulkAccountResult) RunOutput" where
  "failingRun =
     createBulkAccounts twoRetriesManager (processBatches simRuntime (config twoRetriesManager))
       failingApi simEnv (simOptions 1) (1000, [])"

definition failingPatternRun :: "(World, BulkAccountResult) RunOutput" where
  "failingPatternRun =
     createAccountsWithPattern twoRetriesManager
       (processBatches simRuntime (config twoRetriesManager))
       failingApi simEnv ''u{index}@x.io'' 1 ''pw'' (1000, [])"

definition failingValidation :: "(World, AccountValidationResult) RunOutput" where
  "failingValidation =
     validateBulkAccounts twoRetriesManager
       (processBatches simRuntime (config twoRetriesManager))
       tokenApi simEnv [simAccount ''ghost@x.io''] (1000, [])"

text \<open>The processor of the default manager, and runs with nothing to do.\<close>

definition simProcessor :: "(World, 'd, 'r) batchProcessor" where
  "simProcessor = processBatches simRuntime (config defaultManager)"

definition emptyRun :: "(World, BulkAccountResult) RunOutput" where
  "emptyRun =
     createBulkAccounts defaultManager simProcessor registryApi simEnv (simOptions 0) (1000, [])"

definition emptyValidation :: "(World, AccountValidationResult) RunOutput" where
  "emptyValidation =
     validateBulkAccounts defaultManager simProcessor tokenApi simEnv [] (1000, [])"

text \<open>Options that supply a batch size of 0 and a concurrency of -2.\<close>

definition zeroBatchOptions :: BulkAccountCreationOptions where
  "zeroBatchOptions = (simOptions 3)\<lparr>o_batchSize := Some 0, o_concurrency := Some (- 2)\<rparr>"

section \<open>Notions used in the properties\<close>

text \<open>
  The calls of \<^verbatim>\<open>onProgress\<close> the processor makes in a run of each of the three
  operations: the second component of what \<open>pb\<close> returns for the tasks, the worker
  function and the options the operation hands it.
\<close>

definition creationUpdates ::
  "AccountManager \<Rightarrow> ('w, Credentials, Account) batchProcessor \<Rightarrow> 'w createAccountApi
     \<Rightarrow> 'w Environment \<Rightarrow> BulkAccountCreationOptions \<Rightarrow> 'w \<Rightarrow> (ProgressUpdate \<times> int) list" where
  "creationUpdates mgr pb api env options w =
     fst (snd (pb (creationTasks (o_password options) (generateEmailAddresses (env w) options))
                  (createSingleAccount mgr api) (schedulingOptions mgr options) w))"

definition patternUpdates ::
  "AccountManager \<Rightarrow> ('w, Credentials, Account) batchProcessor \<Rightarrow> 'w createAccountApi
     \<Rightarrow> 'w Environment \<Rightarrow> string \<Rightarrow> int \<Rightarrow> string \<Rightarrow> 'w \<Rightarrow> (ProgressUpdate \<times> int) list" where
  "patternUpdates mgr pb api env pattern n pw w =
     fst (snd (pb (creationTasks pw (patternEmails (env w) pattern n))
                  (createSingleAccount mgr api) (configOptions mgr) w))"

definition validationUpdates ::
  "AccountManager \<Rightarrow> ('w, Account, Account) batchProcessor \<Rightarrow> 'w getTokenApi
     \<Rightarrow> Account list \<Rightarrow> 'w \<Rightarrow> (ProgressUpdate \<times> int) list" where
  "validationUpdates mgr pb api accounts w =
     fst (snd (pb (map (\<lambda>a. \<lparr>task_id = accountId a, task_data = a\<rparr>) accounts)
                  (validateSingleAccount api) (configOptions mgr) w))"


definition carriesEta :: "ProgressUpdate \<Rightarrow> bool" where
  "carriesEta u \<longleftrightarrow>
     (case (u_completed u, u_total u, u_currentRate u) of
        (Some c, Some tot, Some rate) \<Rightarrow>
          u_estimatedTimeRemaining u =
            Some (if rate = Fin 0 then None else Some (js_div (num (tot - c)) rate))
      | _ \<Rightarrow> False)"









text \<open>
  The partition of claim C1: the identifiers of the two arrays are as many as the input
  items, without duplicates, and the same set. The identifier of a successful entry is
  the address of the account; that of a failed entry is its \<open>item\<close>.
\<close>

definition idPartition :: "string list \<Rightarrow> string list \<Rightarrow> string list \<Rightarrow> bool" where
  "idPartition ids succIds failIds \<longleftrightarrow>
     length succIds + length failIds = length ids
     \<and> distinct (succIds @ failIds) \<and> set (succIds @ failIds) = set ids"

text \<open>The identifiers of the entries of the batch results a processor returns.\<close>

definition batchIds :: "Account BatchResult list \<Rightarrow> string list" where
  "batchIds rs = concat (map (\<lambda>b. map address (br_successful b) @ map item (br_failed b)) rs)"

text \<open>
  A result accounts for the identifiers \<open>ids\<close>: as many entries, the same identifiers
  with the same multiplicities, and a partition when the identifiers are distinct.
\<close>

definition accountsFor :: "string list \<Rightarrow> BulkAccountResult \<Rightarrow> bool" where
  "accountsFor ids r \<longleftrightarrow>
     length (successful r) + length (failed r) = length ids
     \<and> mset (map address (successful r) @ map item (failed r)) = mset ids
     \<and> (distinct ids \<longrightarrow> idPartition ids (map address (successful r)) (map item (failed r)))"

text \<open>
  The runs of a manager whose processor is the one of the specification, constructed
  with the configuration of the manager (\<^verbatim>\<open>new BatchProcessor(this.config)\<close>).
\<close>

definition creationRun ::
  "'w Runtime \<Rightarrow> AccountManager \<Rightarrow> 'w createAccountApi \<Rightarrow> 'w Environment
     \<Rightarrow> BulkAccountCreationOptions \<Rightarrow> 'w \<Rightarrow> ('w, BulkAccountResult) RunOutput" where
  "creationRun rt mgr api env options w =
     createBulkAccounts mgr (processBatches rt (config mgr)) api env options w"

definition patternRun ::
  "'w Runtime \<Rightarrow> AccountManager \<Rightarrow> 'w createAccountApi \<Rightarrow> 'w Environment
     \<Rightarrow> string \<Rightarrow> int \<Rightarrow> string \<Rightarrow> 'w \<Rightarrow> ('w, BulkAccountResult) RunOutput" where
  "patternRun rt mgr api env pattern n pw w =
     createAccountsWithPattern mgr (processBatches rt (config mgr)) api env pattern n pw w"

text \<open>
  A task and the report of its settlement: the report names the task; a failure record
  names it too; a result is one that the worker function returned for the data of the
  task, which \<open>P\<close> describes.
\<close>

definition settles :: "('d \<Rightarrow> 'r \<Rightarrow> bool) \<Rightarrow> 'd Task \<Rightarrow> 'r TaskReport \<Rightarrow> bool" where
  "settles P task rep \<longleftrightarrow>
     rep_item rep = task_id task
     \<and> (case rep_outcome rep of
          Inl f \<Rightarrow> item f = task_id task
        | Inr r \<Rightarrow> P (task_data task) r)"

text \<open>The identifier of the entry a report contributes to the result.\<close>

definition entryId :: "Account TaskReport \<Rightarrow> string" where
  "entryId rep = (case rep_outcome rep of Inl f \<Rightarrow> item f | Inr r \<Rightarrow> address r)"

text \<open>
  Two accounts from a pattern without a placeholder, against the registry; and two
  accounts with generated addresses, one from the pattern \<^verbatim>\<open>u{index}@x.io\<close>, against a
  registry in which the second address is taken.
\<close>

definition dupRun :: "(World, BulkAccountResult) RunOutput" where
  "dupRun =
     createAccountsWithPattern twoRetriesManager
       (processBatches simRuntime (config twoRetriesManager))
       registryApi simEnv ''dup@x.io'' 2 ''pw'' (1000, [])"

definition takenRun :: "(World, BulkAccountResult) RunOutput" where
  "takenRun =
     creationRun simRuntime twoRetriesManager registryApi simEnv (simOptions 2)
       (1000, [''user-1000-2@x.io''])"

definition takenPatternRun :: "(World, BulkAccountResult) RunOutput" where
  "takenPatternRun =
     patternRun simRuntime twoRetriesManager registryApi simEnv ''u{index}@x.io'' 2 ''pw''
       (1000, [''u2@x.io''])"

text \<open>
  Three callers of one \<^verbatim>\<open>TestApiClient\<close> with \<open>requestDelay = 1000\<close>: all three call
  \<^verbatim>\<open>request\<close> at 5000, as the callers of a \<^verbatim>\<open>Promise.allSettled\<close> over several
  requests do; the timers of the two that wait fire at 6000.
\<close>

definition concurrentCallers :: "Event list" where
  "concurrentCallers =
     [Call 1 5000, Call 2 5000, Call 3 5000, TimerFires 2 6000, TimerFires 3 6000]"

section \<open>Properties of the account manager\<close>

lemma applyUpdates_keeps:
  "errors (fst (applyUpdates mgr ctx us)) = errors ctx
   \<and> ctx_startTime (fst (applyUpdates mgr ctx us)) = ctx_startTime ctx"
  by (induction us arbitrary: ctx) (simp_all add: Let_def updateProgress_def)

lemma calculateMetrics_no_errors:
  "errors ctx = [] \<Longrightarrow> totalRetries (calculateMetrics amb ctx a b) = 0"
  by (simp add: calculateMetrics_def Let_def)

lemma context_errors_after_updates:
  "errors (fst (applyUpdates mgr (createOperationContext mgr amb type n) us)) = []"
  by (simp add: applyUpdates_keeps createOperationContext_def)

lemma generateEmailAddresses_none:
  "o_count options \<le> 0 \<Longrightarrow> generateEmailAddresses amb options = []"
  by (simp add: generateEmailAddresses_def)


subsection \<open>The retry total of the metrics\<close>

text \<open>
  Claim C9. For every run of \<^verbatim>\<open>createBulkAccounts\<close>, \<^verbatim>\<open>createAccountsWithPattern\<close>
  and \<^verbatim>\<open>validateBulkAccounts\<close> that returns a result, whatever the batch processor
  did, \<open>metrics.totalRetries\<close> is 0: the \<open>errors\<close> list of the operation context starts
  empty, no update changes it, and \<^verbatim>\<open>calculateMetrics\<close> sums \<open>retryAttempts\<close> over it.
\<close>

theorem totalRetries_is_always_zero:
  "(outcome (createBulkAccounts mgr pb api env options w) = Inr r1
      \<longrightarrow> totalRetries (metrics r1) = 0)
   \<and> (outcome (createAccountsWithPattern mgr pb api env pattern n pw w) = Inr r2
      \<longrightarrow> totalRetries (metrics r2) = 0)
   \<and> (outcome (validateBulkAccounts mgr pbv tapi env accounts w) = Inr r3
      \<longrightarrow> totalRetries (v_metrics r3) = 0)"
proof (intro conjI impI)
  assume "outcome (createBulkAccounts mgr pb api env options w) = Inr r1"
  then show "totalRetries (metrics r1) = 0"
    by (auto simp: createBulkAccounts_def compileResult_def Let_def
          calculateMetrics_no_errors context_errors_after_updates split: sum.splits)
next
  assume "outcome (createAccountsWithPattern mgr pb api env pattern n pw w) = Inr r2"
  then show "totalRetries (metrics r2) = 0"
    by (auto simp: createAccountsWithPattern_def compileResult_def Let_def
          calculateMetrics_no_errors context_errors_after_updates split: sum.splits)
next
  assume "outcome (validateBulkAccounts mgr pbv tapi env accounts w) = Inr r3"
  then show "totalRetries (v_metrics r3) = 0"
    by (auto simp: validateBulkAccounts_def compileValidation_def Let_def
          calculateMetrics_no_errors context_errors_after_updates split: sum.splits)
qed

text \<open>
  Three runs in which the one task fails after two retries: the failure record counts
  the two retries, the metrics count none.
\<close>

theorem totalRetries_is_always_zero_witness:
  "map retryAttempts (failed (projr (outcome failingRun))) = [2]
   \<and> totalRetries (metrics (projr (outcome failingRun))) = 0
   \<and> totalRetries (metrics (projr (outcome failingPatternRun))) = 0
   \<and> totalRetries (v_metrics (projr (outcome failingValidation))) = 0"
proof -
  have a: "outcome failingRun = Inr (projr (outcome failingRun))"
    and b: "outcome failingPatternRun = Inr (projr (outcome failingPatternRun))"
    and c: "outcome failingValidation = Inr (projr (outcome failingValidation))"
    and d: "map retryAttempts (failed (projr (outcome failingRun))) = [2]"
    by code_simp+
  show ?thesis
    using totalRetries_is_always_zero
      [of twoRetriesManager "processBatches simRuntime (config twoRetriesManager)" failingApi
          simEnv "simOptions 1" "(1000, [])" "projr (outcome failingRun)"
          "''u{index}@x.io''" 1 "''pw''" "projr (outcome failingPatternRun)"
          "processBatches simRuntime (config twoRetriesManager)" tokenApi
          "[simAccount ''ghost@x.io'']" "projr (outcome failingValidation)"]
      a b c d
    unfolding failingRun_def failingPatternRun_def failingValidation_def
    by simp
qed

subsection \<open>Division by the number of accounts\<close>

text \<open>
  Claim C10. \<^verbatim>\<open>validateBulkAccounts\<close> on an empty array of accounts divides by
  \<open>accounts.length = 0\<close> without a guard: its \<open>validationRate\<close> is NaN (0/0) when no
  account is reported valid, and never a finite number. The analogous quotients of
  \<^verbatim>\<open>createSummary\<close> and \<^verbatim>\<open>calculateMetrics\<close> are guarded by \<open>> 0\<close> and are 0 there.
\<close>

theorem validationRate_of_no_accounts:
  assumes "outcome (validateBulkAccounts mgr pb api env [] w) = Inr r"
  shows "validationRate (v_summary r) = (if valid r = [] then NaN else PosInf)
     \<and> successRate (createSummary 0 s f m) = Fin 0
     \<and> averageTimePerAccount (createSummary 0 s f m) = Fin 0
     \<and> averageResponseTime (calculateMetrics amb ctx 0 0) = Fin 0
     \<and> requestsPerSecond (calculateMetrics amb ctx 0 0) = Fin 0
     \<and> errorRate (calculateMetrics amb ctx 0 0) = Fin 0"
proof -
  have "validationRate (v_summary r) = (if valid r = [] then NaN else PosInf)"
    using assms
    by (auto simp: validateBulkAccounts_def compileValidation_def Let_def num_def
          split: sum.splits)
  then show ?thesis
    by (simp add: createSummary_def calculateMetrics_def Let_def)
qed

theorem validationRate_of_no_accounts_witness:
  "validationRate (v_summary (projr (outcome emptyValidation))) = NaN
   \<and> successRate (summary (projr (outcome emptyRun))) = Fin 0"
proof -
  have a: "outcome emptyValidation = Inr (projr (outcome emptyValidation))"
    and b: "valid (projr (outcome emptyValidation)) = []"
    and c: "successRate (summary (projr (outcome emptyRun))) = Fin 0"
    by code_simp+
  show ?thesis
    using validationRate_of_no_accounts
      [of defaultManager simProcessor tokenApi simEnv "(1000, [])"
          "projr (outcome emptyValidation)"] a b c
    unfolding emptyValidation_def by simp
qed

subsection \<open>Empty input\<close>

lemma chunk_Nil [simp]: "chunk n [] = []"
  by (simp add: chunk.simps)

text \<open>
  The processor of the specification does nothing on an empty task list, whatever the
  worker function is: no batch, no progress call, the outside world as it was.
\<close>

lemma processBatches_no_tasks:
  "processBatches rt cfg [] fn popts w = (Inr [], [], w)"
  by (simp add: processBatches_def runTrace_def Let_def)

text \<open>
  Claim C5. With \<open>count = 0\<close> (or less) \<^verbatim>\<open>generateEmailAddresses\<close> generates no task.
  If the processor then returns no batch, calls \<^verbatim>\<open>onProgress\<close> never and leaves the
  outside world as it is (it has invoked no worker function and no time has passed),
  \<^verbatim>\<open>createBulkAccounts\<close> returns a result and delivers no \<^verbatim>\<open>error\<close> event; in the
  result \<open>successful = []\<close>, \<open>failed = []\<close> and \<open>metrics.totalTime = 0\<close>, the two clock
  readings of the manager, in \<^verbatim>\<open>createOperationContext\<close> and in \<^verbatim>\<open>calculateMetrics\<close>,
  being taken in the same state of the world.
\<close>

theorem empty_input_gives_empty_result:
  assumes "o_count options \<le> 0"
      and "pb [] (createSingleAccount mgr api) (schedulingOptions mgr options) w = (Inr [], [], w)"
  shows "generateEmailAddresses (env w) options = []
     \<and> (\<exists>r. outcome (createBulkAccounts mgr pb api env options w) = Inr r
            \<and> successful r = [] \<and> failed r = [] \<and> totalTime (metrics r) = 0)
     \<and> world (createBulkAccounts mgr pb api env options w) = w
     \<and> list_all (\<lambda>ev. ev_type ev \<noteq> Error) (events (createBulkAccounts mgr pb api env options w))"
  using assms
  by (simp add: generateEmailAddresses_none createBulkAccounts_def creationTasks_def
        compileResult_def calculateMetrics_def Let_def createOperationContext_def
        emitProgress_def)

theorem empty_input_gives_empty_result_witness:
  "generateEmailAddresses (simEnv (1000, [])) (simOptions 0) = []
   \<and> (\<exists>r. outcome emptyRun = Inr r \<and> successful r = [] \<and> failed r = []
          \<and> totalTime (metrics r) = 0)
   \<and> world emptyRun = (1000, [])
   \<and> map ev_type (events emptyRun) = [Started, Completed]"
proof -
  have a: "o_count (simOptions 0) \<le> 0" by (simp add: simOptions_def)
  have c: "simProcessor [] (createSingleAccount defaultManager registryApi)
          (schedulingOptions defaultManager (simOptions 0)) (1000, []) = (Inr [], [], (1000, []))"
    by (simp add: simProcessor_def processBatches_no_tasks)
  have d: "map ev_type (events emptyRun) = [Started, Completed]"
    by code_simp
  show ?thesis
    using empty_input_gives_empty_result
      [where options = "simOptions 0" and pb = simProcessor and mgr = defaultManager
         and api = registryApi and w = "(1000, [])" and env = simEnv] a c d
    unfolding emptyRun_def by simp
qed

text \<open>
  With the processor of the specification a run on no input does not depend on the
  remote call: the worker function is never invoked.
\<close>

lemma empty_run_ignores_worker:
  "o_count options \<le> 0
     \<Longrightarrow> creationRun rt mgr api env options w = creationRun rt mgr api' env options w"
  by (simp add: creationRun_def createBulkAccounts_def generateEmailAddresses_none
        creationTasks_def processBatches_no_tasks Let_def)

subsection \<open>Effective batch size and concurrency\<close>

lemma runTrace_sizes:
  "tr_batchSize (runTrace rt cfg tasks fn popts w) = clampToOne (po_batchSize popts)
   \<and> tr_concurrency (runTrace rt cfg tasks fn popts w) = clampToOne (po_concurrency popts)"
  by (simp add: runTrace_def Let_def split: prod.splits)

text \<open>
  Claim C4, as stated, fails: a supplied value below 1 is not always clamped to 1. With
  the default configuration, a supplied batch size of 0 is falsy, so
  \<^verbatim>\<open>options.batchSize || this.config.batchSize\<close> hands the configured 20 to the processor
  and the run is scheduled with 20; a supplied concurrency of -2 is handed over as -2.
\<close>

theorem zero_option_is_replaced_not_clamped:
  "po_batchSize (schedulingOptions defaultManager zeroBatchOptions) = 20
   \<and> tr_batchSize (runTrace simRuntime (config defaultManager)
         (creationTasks ''pw'' (generateEmailAddresses (simEnv (1000, [])) zeroBatchOptions))
         (createSingleAccount defaultManager registryApi)
         (schedulingOptions defaultManager zeroBatchOptions) (1000, [])) = 20
   \<and> po_concurrency (schedulingOptions defaultManager zeroBatchOptions) = - 2"
  by (simp add: runTrace_sizes schedulingOptions_def zeroBatchOptions_def simOptions_def
        js_or_def defaultManager_def setProgressCallback_def newAccountManager_def
        noOverrides_def orDefault_def DEFAULT_CONFIG_def clampToOne_def)

text \<open>
  Claim C4, amended. The account manager does not clamp: its constructor stores a
  supplied batch size or concurrency as it is (the defaults 20 and 3 otherwise), and
  \<^verbatim>\<open>createBulkAccounts\<close> hands to the processor the per-call option when it is
  supplied and not 0, the configured value otherwise. The processor of the
  specification clamps what it is handed to at least 1, so the effective batch size and
  concurrency are each at least 1.
\<close>

theorem effective_scheduling_values:
  "po_batchSize (schedulingOptions mgr options) =
     (case o_batchSize options of
        None \<Rightarrow> batchSize (config mgr)
      | Some v \<Rightarrow> if v = 0 then batchSize (config mgr) else v)
   \<and> po_concurrency (schedulingOptions mgr options) =
     (case o_concurrency options of
        None \<Rightarrow> concurrency (config mgr)
      | Some v \<Rightarrow> if v = 0 then concurrency (config mgr) else v)
   \<and> batchSize (config (newAccountManager p)) = orDefault (p_batchSize p) 20
   \<and> concurrency (config (newAccountManager p)) = orDefault (p_concurrency p) 3
   \<and> tr_batchSize (runTrace rt cfg tasks fn (schedulingOptions mgr options) w) =
       max 1 (po_batchSize (schedulingOptions mgr options))
   \<and> tr_concurrency (runTrace rt cfg tasks fn (schedulingOptions mgr options) w) =
       max 1 (po_concurrency (schedulingOptions mgr options))
   \<and> 1 \<le> tr_batchSize (runTrace rt cfg tasks fn (schedulingOptions mgr options) w)
   \<and> 1 \<le> tr_concurrency (runTrace rt cfg tasks fn (schedulingOptions mgr options) w)"
  by (simp add: runTrace_sizes schedulingOptions_def js_or_def newAccountManager_def
        DEFAULT_CONFIG_def clampToOne_def max_def split: option.splits)

theorem effective_scheduling_values_witness:
  "po_batchSize (schedulingOptions defaultManager zeroBatchOptions) = 20
   \<and> po_concurrency (schedulingOptions defaultManager zeroBatchOptions) = - 2
   \<and> tr_concurrency (runTrace simRuntime (config defaultManager)
         (creationTasks ''pw'' (generateEmailAddresses (simEnv (1000, [])) zeroBatchOptions))
         (createSingleAccount defaultManager registryApi)
         (schedulingOptions defaultManager zeroBatchOptions) (1000, [])) = 1"
proof -
  have a: "o_batchSize zeroBatchOptions = Some 0"
    and b: "o_concurrency zeroBatchOptions = Some (- 2)"
    and c: "batchSize (config defaultManager) = 20"
    by (simp_all add: zeroBatchOptions_def simOptions_def defaultManager_def
          setProgressCallback_def newAccountManager_def noOverrides_def orDefault_def
          DEFAULT_CONFIG_def)
  show ?thesis
    using effective_scheduling_values
      [of defaultManager zeroBatchOptions noOverrides simRuntime "config defaultManager"
          "creationTasks ''pw'' (generateEmailAddresses (simEnv (1000, [])) zeroBatchOptions)"
          "createSingleAccount defaultManager registryApi" "(1000, [])"]
    by (simp add: a b c)
qed

subsection \<open>The estimated time remaining\<close>













section \<open>Properties of the batch processor\<close>

lemma concat_chunk: "0 < n \<Longrightarrow> concat (chunk n xs) = xs"
proof (induction n xs rule: chunk.induct)
  case (1 n xs)
  show ?case
  proof (cases "xs = []")
    case True
    then show ?thesis by simp
  next
    case False
    with 1 have "concat (chunk n (drop n xs)) = drop n xs" by simp
    with False "1.prems" show ?thesis
      by (subst chunk.simps) simp
  qed
qed

subsection \<open>The updates of the tracker\<close>

text \<open>
  Every update of the tracker carries the estimate \<open>(total - completed) / currentRate\<close>,
  or \<^verbatim>\<open>null\<close> for a rate of 0. Its rate is never 0: \<open>completed\<close> is at least 1 when a
  task has settled, so the estimate it carries is never \<^verbatim>\<open>null\<close>.
\<close>

lemma onTaskSettled_update:
  assumes "0 \<le> ps_completed st"
  shows "carriesEta (fst (snd (onTaskSettled rt tot started hasFailed st)))"
    and "u_currentRate (fst (snd (onTaskSettled rt tot started hasFailed st))) \<noteq> Some (Fin 0)"
    and "0 \<le> ps_completed (fst (onTaskSettled rt tot started hasFailed st))"
proof -
  show "carriesEta (fst (snd (onTaskSettled rt tot started hasFailed st)))"
    by (simp add: onTaskSettled_def Let_def carriesEta_def)
  have "of_int (ps_completed st + 1) \<noteq> (0::rat)"
    using assms by (metis add.commute of_int_eq_0_iff add_nonneg_eq_0_iff zero_neq_one zero_le_one)
  then show "u_currentRate (fst (snd (onTaskSettled rt tot started hasFailed st)))
      \<noteq> Some (Fin 0)"
    by (simp add: onTaskSettled_def Let_def num_def)
  show "0 \<le> ps_completed (fst (onTaskSettled rt tot started hasFailed st))"
    using assms by (simp add: onTaskSettled_def Let_def)
qed

lemma processTask_update:
  assumes "0 \<le> ps_completed st"
  shows "carriesEta (fst (fst (snd (processTask rt cfg fn tot started task st))))
     \<and> u_currentRate (fst (fst (snd (processTask rt cfg fn tot started task st))))
         \<noteq> Some (Fin 0)
     \<and> 0 \<le> ps_completed (snd (snd (processTask rt cfg fn tot started task st)))"
  using assms by (simp add: processTask_def Let_def onTaskSettled_update)

lemma processTasks_updates:
  "0 \<le> ps_completed st
     \<Longrightarrow> (\<forall>ut \<in> set (fst (snd (processTasks rt cfg fn tot started tasks st))).
           carriesEta (fst ut) \<and> u_currentRate (fst ut) \<noteq> Some (Fin 0))
       \<and> 0 \<le> ps_completed (snd (snd (processTasks rt cfg fn tot started tasks st)))"
proof (induction tasks arbitrary: st)
  case Nil
  then show ?case by simp
next
  case (Cons task tasks)
  note one = processTask_update [OF Cons.prems, of rt cfg fn tot started task]
  from one have "0 \<le> ps_completed (snd (snd (processTask rt cfg fn tot started task st)))"
    by blast
  from Cons.IH [OF this] one show ?case
    by (simp add: Let_def)
qed

lemma runBatches_updates:
  "0 \<le> ps_completed st
     \<Longrightarrow> (\<forall>ut \<in> set (fst (snd (runBatches rt cfg fn tot started batches st))).
           carriesEta (fst ut) \<and> u_currentRate (fst ut) \<noteq> Some (Fin 0))
       \<and> 0 \<le> ps_completed (snd (snd (runBatches rt cfg fn tot started batches st)))"
proof (induction batches arbitrary: st)
  case Nil
  then show ?case by simp
next
  case (Cons batch batches)
  note one = processTasks_updates [OF Cons.prems, of rt cfg fn tot started batch]
  from one have "0 \<le> ps_completed (snd (snd (processTasks rt cfg fn tot started batch st)))"
    by blast
  from Cons.IH [OF this] one show ?case
    by (auto simp: Let_def)
qed

lemma tracker_updates:
  "\<forall>ut \<in> set (fst (snd (processBatches rt cfg tasks fn popts w))).
     carriesEta (fst ut) \<and> u_currentRate (fst ut) \<noteq> Some (Fin 0)"
  using runBatches_updates [of "\<lparr>ps_cursor = rt_now rt w, ps_world = w, ps_completed = 0,
      ps_errorCount = 0\<rparr>" rt cfg fn "int (length tasks)" "rt_now rt w"
      "chunk (nat (clampToOne (po_batchSize popts))) tasks"]
  by (simp add: processBatches_def runTrace_def Let_def)

text \<open>So the updates of each operation carry the estimate when the processor is that of
  the specification.\<close>

lemma tracker_updates_of_the_operations:
  "list_all (\<lambda>ut. carriesEta (fst ut))
     (creationUpdates mgr (processBatches rt cfg) api env options w)"
  "list_all (\<lambda>ut. carriesEta (fst ut))
     (validationUpdates mgr (processBatches rt cfg) tapi accounts w)"
  "list_all (\<lambda>ut. carriesEta (fst ut))
     (patternUpdates mgr (processBatches rt cfg) api env pattern n pw w)"
proof -
  show "list_all (\<lambda>ut. carriesEta (fst ut))
     (creationUpdates mgr (processBatches rt cfg) api env options w)"
    using tracker_updates
      [of rt cfg "creationTasks (o_password options) (generateEmailAddresses (env w) options)"
          "createSingleAccount mgr api" "schedulingOptions mgr options" w]
    by (simp add: creationUpdates_def list_all_iff)
  show "list_all (\<lambda>ut. carriesEta (fst ut))
     (validationUpdates mgr (processBatches rt cfg) tapi accounts w)"
    using tracker_updates
      [of rt cfg "map (\<lambda>a. \<lparr>task_id = accountId a, task_data = a\<rparr>) accounts"
          "validateSingleAccount tapi" "configOptions mgr" w]
    by (simp add: validationUpdates_def list_all_iff)
  show "list_all (\<lambda>ut. carriesEta (fst ut))
     (patternUpdates mgr (processBatches rt cfg) api env pattern n pw w)"
    using tracker_updates
      [of rt cfg "creationTasks pw (patternEmails (env w) pattern n)"
          "createSingleAccount mgr api" "configOptions mgr" w]
    by (simp add: patternUpdates_def list_all_iff)
qed

subsection \<open>The reports of the tasks\<close>

lemma attemptTask_result:
  "at_log (attemptTask rt cfg fn d attempt history delays s) \<noteq> []
   \<and> (\<forall>r. last (at_log (attemptTask rt cfg fn d attempt history delays s)) = Inr r
          \<longrightarrow> (\<exists>w. fst (fn d w) = Inr r))"
proof (induction rt cfg fn d attempt history delays s rule: attemptTask.induct)
  case (1 rt cfg fn d attempt history delays s)
  let ?x = "acquire rt cfg s"
  let ?xa = "fn d (snd ?x)"
  show ?case
  proof (cases "fst ?xa")
    case (Inr r)
    then have eq: "attemptTask rt cfg fn d attempt history delays s
        = \<lparr>at_log = history @ [Inr r], at_delays = delays, at_cursor = fst ?x,
           at_world = snd ?xa\<rparr>"
      by (simp add: attemptTask.simps [of rt cfg fn d attempt history delays s] Let_def)
    show ?thesis
      unfolding eq using Inr by auto
  next
    case (Inl msg)
    show ?thesis
    proof (cases "shouldRetry cfg attempt")
      case False
      with Inl have eq: "attemptTask rt cfg fn d attempt history delays s
          = \<lparr>at_log = history @ [Inl msg], at_delays = delays, at_cursor = fst ?x,
             at_world = snd ?xa\<rparr>"
        by (simp add: attemptTask.simps [of rt cfg fn d attempt history delays s] Let_def)
      show ?thesis
        unfolding eq by simp
    next
      case True
      have eq: "attemptTask rt cfg fn d attempt history delays s
          = attemptTask rt cfg fn d (Suc attempt) (history @ [Inl msg])
              (delays @ [delayFor cfg attempt])
              (fst ?x, rt_sleep rt (delayFor cfg attempt) (snd ?xa))"
        using Inl True
        by (simp add: attemptTask.simps [of rt cfg fn d attempt history delays s] Let_def)
      show ?thesis
        unfolding eq by (rule "1.IH" [OF refl refl Inl True])
    qed
  qed
qed

lemma settle_settles:
  assumes "\<forall>d w r. fst (fn d w) = Inr r \<longrightarrow> P d r"
  shows "settles P task (settle rt task (attemptTask rt cfg fn (task_data task) 1 [] [] s))"
proof -
  let ?a = "attemptTask rt cfg fn (task_data task) 1 [] [] s"
  note res = attemptTask_result [of rt cfg fn "task_data task" 1 "[]" "[]" s]
  show ?thesis
  proof (cases "last (at_log ?a)")
    case (Inl msg)
    then show ?thesis by (simp add: settles_def settle_def)
  next
    case (Inr r)
    with res obtain w where "fst (fn (task_data task) w) = Inr r" by blast
    with assms have "P (task_data task) r" by blast
    with Inr show ?thesis by (simp add: settles_def settle_def)
  qed
qed

lemma processTasks_settles:
  assumes "\<forall>d w r. fst (fn d w) = Inr r \<longrightarrow> P d r"
  shows "list_all2 (settles P) tasks (fst (processTasks rt cfg fn tot started tasks st))"
proof (induction tasks arbitrary: st)
  case Nil
  show ?case by simp
next
  case (Cons task tasks)
  have "settles P task (fst (processTask rt cfg fn tot started task st))"
    using settle_settles [OF assms, of task rt cfg "(ps_cursor st, ps_world st)"]
    by (simp add: processTask_def Let_def)
  with Cons.IH show ?case
    by (simp add: Let_def)
qed

lemma runBatches_settles:
  assumes "\<forall>d w r. fst (fn d w) = Inr r \<longrightarrow> P d r"
  shows "list_all2 (settles P) (concat batches)
           (concat (fst (runBatches rt cfg fn tot started batches st)))"
proof (induction batches arbitrary: st)
  case Nil
  show ?case by simp
next
  case (Cons batch batches)
  from processTasks_settles [OF assms, of batch rt cfg tot started st] Cons.IH
  show ?case
    by (simp add: Let_def list_all2_appendI)
qed

lemma runTrace_settles:
  assumes "\<forall>d w r. fst (fn d w) = Inr r \<longrightarrow> P d r"
  shows "list_all2 (settles P) tasks (concat (tr_reports (runTrace rt cfg tasks fn popts w)))"
proof -
  have pos: "0 < nat (clampToOne (po_batchSize popts))"
    by (simp add: clampToOne_def)
  from runBatches_settles [OF assms, of "chunk (nat (clampToOne (po_batchSize popts))) tasks"
      rt cfg "int (length tasks)" "rt_now rt w"
      "\<lparr>ps_cursor = rt_now rt w, ps_world = w, ps_completed = 0, ps_errorCount = 0\<rparr>"]
  show ?thesis
    by (simp add: runTrace_def Let_def concat_chunk [OF pos])
qed

text \<open>The entries of the batch results are those of the reports.\<close>

lemma toBatchResult_count:
  "length (br_successful (toBatchResult reps)) + length (br_failed (toBatchResult reps))
     = length reps"
  by (induction reps) (simp_all add: toBatchResult_def split: sum.splits)

lemma batchResults_count:
  "length (concat (map br_successful (map toBatchResult repss)))
     + length (concat (map br_failed (map toBatchResult repss))) = length (concat repss)"
proof (induction repss)
  case Nil
  show ?case by simp
next
  case (Cons reps repss)
  with toBatchResult_count [of reps] show ?case by simp
qed

lemma toBatchResult_ids:
  "mset (map address (br_successful (toBatchResult reps))
           @ map item (br_failed (toBatchResult reps)))
     = mset (map entryId reps)"
  by (induction reps) (simp_all add: toBatchResult_def entryId_def split: sum.splits)

lemma batchResults_ids:
  "mset (batchIds (map toBatchResult repss)) = mset (map entryId (concat repss))"
proof (induction repss)
  case Nil
  show ?case by (simp add: batchIds_def)
next
  case (Cons reps repss)
  have "batchIds (map toBatchResult (reps # repss))
      = (map address (br_successful (toBatchResult reps))
           @ map item (br_failed (toBatchResult reps)))
        @ batchIds (map toBatchResult repss)"
    by (simp add: batchIds_def)
  then have "mset (batchIds (map toBatchResult (reps # repss)))
      = mset (map address (br_successful (toBatchResult reps))
                @ map item (br_failed (toBatchResult reps)))
        + mset (batchIds (map toBatchResult repss))"
    by (simp only: mset_append)
  also have "\<dots> = mset (map entryId reps) + mset (map entryId (concat repss))"
    by (simp only: toBatchResult_ids Cons)
  also have "\<dots> = mset (map entryId (concat (reps # repss)))"
    by simp
  finally show ?case .
qed

lemma settled_entryIds:
  assumes "list_all2 (settles (\<lambda>d r. address r = email d)) (creationTasks pw ids) reps"
  shows "map entryId reps = ids"
proof -
  from assms have "list_all2 (\<lambda>e rep. entryId rep = e) ids reps"
    unfolding creationTasks_def list_all2_map1
    by (rule list_all2_mono) (auto simp: settles_def entryId_def split: sum.splits)
  then show ?thesis
    by (induction rule: list_all2_induct) simp_all
qed

lemma createSingleAccount_echoes:
  assumes "\<forall>addr pw prov w acc. fst (api addr pw prov w) = Inr acc \<longrightarrow> address acc = addr"
  shows "\<forall>d w r. fst (createSingleAccount mgr api d w) = Inr r \<longrightarrow> address r = email d"
proof (intro allI impI)
  fix d w r
  assume "fst (createSingleAccount mgr api d w) = Inr r"
  then have "fst (api (email d) (password d) (provider (config mgr)) w) = Inr r"
    by (simp add: createSingleAccount_def Let_def split: sum.splits)
  with assms show "address r = email d" by blast
qed

text \<open>
  What the processor of the specification returns for the tasks of an account
  creation: one entry for each task, and the identifiers of the tasks when the remote
  call returns each account under the address it was asked for.
\<close>

lemma processBatches_entries:
  "\<exists>rs. fst (processBatches rt cfg (creationTasks pw ids) (createSingleAccount mgr api) popts w)
          = Inr rs
     \<and> length (concat (map br_successful rs)) + length (concat (map br_failed rs))
         = length ids
     \<and> ((\<forall>addr pw prov w acc. fst (api addr pw prov w) = Inr acc \<longrightarrow> address acc = addr)
          \<longrightarrow> mset (batchIds rs) = mset ids)"
proof -
  let ?fn = "createSingleAccount mgr api"
  let ?repss = "tr_reports (runTrace rt cfg (creationTasks pw ids) ?fn popts w)"
  have res: "fst (processBatches rt cfg (creationTasks pw ids) ?fn popts w)
      = Inr (map toBatchResult ?repss)"
    by (simp add: processBatches_def Let_def)
  have "list_all2 (settles (\<lambda>d r. True)) (creationTasks pw ids) (concat ?repss)"
    by (rule runTrace_settles) simp
  then have "length (concat ?repss) = length ids"
    by (simp add: list_all2_lengthD [symmetric] creationTasks_def)
  then have n: "length (concat (map br_successful (map toBatchResult ?repss)))
      + length (concat (map br_failed (map toBatchResult ?repss))) = length ids"
    using batchResults_count [of ?repss] by simp
  have "mset (batchIds (map toBatchResult ?repss)) = mset ids"
    if "\<forall>addr pw prov w acc. fst (api addr pw prov w) = Inr acc \<longrightarrow> address acc = addr"
  proof -
    have "list_all2 (settles (\<lambda>d r. address r = email d)) (creationTasks pw ids)
        (concat ?repss)"
      by (rule runTrace_settles) (rule createSingleAccount_echoes [OF that])
    then have "map entryId (concat ?repss) = ids"
      by (rule settled_entryIds)
    then show ?thesis
      by (simp add: batchResults_ids)
  qed
  with res n show ?thesis by blast
qed

subsection \<open>The partition of the input\<close>

lemma mset_batchIds:
  "mset (map address (concat (map br_successful rs)) @ map item (concat (map br_failed rs)))
     = mset (batchIds rs)"
  by (induction rs) (simp_all add: batchIds_def)

text \<open>
  The aggregation loop of the account manager keeps the entries of the batches: when
  they are those of the tasks, the result accounts for the tasks.
\<close>

lemma compileResult_accountsFor:
  assumes "mset (batchIds rs) = mset ids"
  shows "accountsFor ids (compileResult amb ctx n rs)"
proof -
  let ?r = "compileResult amb ctx n rs"
  let ?out = "map address (successful ?r) @ map item (failed ?r)"
  have m: "mset ?out = mset ids"
    using assms mset_batchIds [of rs] by (simp add: compileResult_def Let_def)
  then have "size (mset ?out) = size (mset ids)" by simp
  then have len: "length (successful ?r) + length (failed ?r) = length ids" by simp
  have "distinct ids \<Longrightarrow> distinct ?out"
    using m mset_eq_imp_distinct_iff by blast
  moreover have "set ?out = set ids"
    using m mset_eq_setD by blast
  ultimately show ?thesis
    using m len unfolding accountsFor_def idPartition_def by simp
qed

lemma compileResult_count:
  "length (successful (compileResult amb ctx n rs)) + length (failed (compileResult amb ctx n rs))
     = length (concat (map br_successful rs)) + length (concat (map br_failed rs))"
  by (simp add: compileResult_def Let_def)

text \<open>
  Claim C1, as stated, fails for a pattern without \<^verbatim>\<open>{index}\<close>:
  \<^verbatim>\<open>createAccountsWithPattern('dup@x.io', 2, ...)\<close> generates the identifier
  \<^verbatim>\<open>dup@x.io\<close> twice. The registry accepts the first task and refuses the second, so
  the identifier appears in both arrays.
\<close>

theorem pattern_without_index_breaks_partition:
  "patternEmails (simEnv (1000, [])) ''dup@x.io'' 2 = [''dup@x.io'', ''dup@x.io'']
   \<and> map address (successful (projr (outcome dupRun))) = [''dup@x.io'']
   \<and> map item (failed (projr (outcome dupRun))) = [''dup@x.io'']
   \<and> \<not> idPartition (patternEmails (simEnv (1000, [])) ''dup@x.io'' 2)
          (map address (successful (projr (outcome dupRun))))
          (map item (failed (projr (outcome dupRun))))"
proof -
  have "patternEmails (simEnv (1000, [])) ''dup@x.io'' 2 = [''dup@x.io'', ''dup@x.io'']"
    and "map address (successful (projr (outcome dupRun))) = [''dup@x.io'']"
    and "map item (failed (projr (outcome dupRun))) = [''dup@x.io'']"
    by code_simp+
  then show ?thesis by (simp add: idPartition_def)
qed

text \<open>
  Claim C1, amended. A run of \<^verbatim>\<open>createBulkAccounts\<close> or of
  \<^verbatim>\<open>createAccountsWithPattern\<close> with the processor of the specification returns a
  result in which the number of \<open>successful\<close> entries plus the number of \<open>failed\<close>
  entries is the number of generated addresses. When the remote call returns each
  account under the address it was asked for, the identifiers of the two arrays are the
  generated addresses with their multiplicities; each of them appears in exactly one
  of the two arrays when the generated addresses are pairwise distinct.
\<close>

theorem results_account_for_every_task:
  "(\<exists>r. outcome (creationRun rt mgr api env options w) = Inr r
        \<and> length (successful r) + length (failed r)
            = length (generateEmailAddresses (env w) options)
        \<and> ((\<forall>addr pw prov w acc. fst (api addr pw prov w) = Inr acc \<longrightarrow> address acc = addr)
             \<longrightarrow> accountsFor (generateEmailAddresses (env w) options) r))
   \<and> (\<exists>r. outcome (patternRun rt mgr api env pattern n pw w) = Inr r
        \<and> length (successful r) + length (failed r) = length (patternEmails (env w) pattern n)
        \<and> ((\<forall>addr pw prov w acc. fst (api addr pw prov w) = Inr acc \<longrightarrow> address acc = addr)
             \<longrightarrow> accountsFor (patternEmails (env w) pattern n) r))"
proof (rule conjI)
  let ?ids = "generateEmailAddresses (env w) options"
  let ?pb = "processBatches rt (config mgr) (creationTasks (o_password options) ?ids)
               (createSingleAccount mgr api) (schedulingOptions mgr options) w"
  from processBatches_entries [of rt "config mgr" "o_password options" ?ids mgr api
      "schedulingOptions mgr options" w]
  obtain rs where rs: "fst ?pb = Inr rs"
    and n: "length (concat (map br_successful rs)) + length (concat (map br_failed rs))
         = length ?ids"
    and m: "(\<forall>addr pw prov w acc. fst (api addr pw prov w) = Inr acc \<longrightarrow> address acc = addr)
          \<longrightarrow> mset (batchIds rs) = mset ?ids"
    by blast
  let ?r = "compileResult (env (snd (snd ?pb)))
              (fst (applyUpdates mgr
                      (createOperationContext mgr (env w) ''account-creation'' (o_count options))
                      (fst (snd ?pb))))
              (o_count options) rs"
  have "outcome (creationRun rt mgr api env options w) = Inr ?r"
    using rs by (simp add: creationRun_def createBulkAccounts_def Let_def)
  moreover have "length (successful ?r) + length (failed ?r) = length ?ids"
    using n by (simp only: compileResult_count)
  moreover have "(\<forall>addr pw prov w acc. fst (api addr pw prov w) = Inr acc \<longrightarrow> address acc = addr)
      \<longrightarrow> accountsFor ?ids ?r"
    using m compileResult_accountsFor by blast
  ultimately show "\<exists>r. outcome (creationRun rt mgr api env options w) = Inr r
        \<and> length (successful r) + length (failed r) = length ?ids
        \<and> ((\<forall>addr pw prov w acc. fst (api addr pw prov w) = Inr acc \<longrightarrow> address acc = addr)
             \<longrightarrow> accountsFor ?ids r)"
    by blast
next
  let ?ids = "patternEmails (env w) pattern n"
  let ?pb = "processBatches rt (config mgr) (creationTasks pw ?ids)
               (createSingleAccount mgr api) (configOptions mgr) w"
  from processBatches_entries [of rt "config mgr" pw ?ids mgr api "configOptions mgr" w]
  obtain rs where rs: "fst ?pb = Inr rs"
    and n: "length (concat (map br_successful rs)) + length (concat (map br_failed rs))
         = length ?ids"
    and m: "(\<forall>addr pw prov w acc. fst (api addr pw prov w) = Inr acc \<longrightarrow> address acc = addr)
          \<longrightarrow> mset (batchIds rs) = mset ?ids"
    by blast
  let ?r = "compileResult (env (snd (snd ?pb)))
              (fst (applyUpdates mgr
                      (createOperationContext mgr (env w) ''account-creation'' n)
                      (fst (snd ?pb))))
              n rs"
  have "outcome (patternRun rt mgr api env pattern n pw w) = Inr ?r"
    using rs by (simp add: patternRun_def createAccountsWithPattern_def Let_def)
  moreover have "length (successful ?r) + length (failed ?r) = length ?ids"
    using n by (simp only: compileResult_count)
  moreover have "(\<forall>addr pw prov w acc. fst (api addr pw prov w) = Inr acc \<longrightarrow> address acc = addr)
      \<longrightarrow> accountsFor ?ids ?r"
    using m compileResult_accountsFor by blast
  ultimately show "\<exists>r. outcome (patternRun rt mgr api env pattern n pw w) = Inr r
        \<and> length (successful r) + length (failed r) = length ?ids
        \<and> ((\<forall>addr pw prov w acc. fst (api addr pw prov w) = Inr acc \<longrightarrow> address acc = addr)
             \<longrightarrow> accountsFor ?ids r)"
    by blast
qed

text \<open>
  Two runs against a registry in which the second address is taken: the first account
  is created, the second task fails at each of its three attempts.
\<close>

theorem results_account_for_every_task_witness:
  "(\<exists>r. outcome takenRun = Inr r
        \<and> map address (successful r) = [''user-1000-1@x.io'']
        \<and> map item (failed r) = [''user-1000-2@x.io'']
        \<and> idPartition [''user-1000-1@x.io'', ''user-1000-2@x.io'']
             (map address (successful r)) (map item (failed r)))
   \<and> (\<exists>r. outcome takenPatternRun = Inr r
        \<and> map address (successful r) = [''u1@x.io'']
        \<and> map item (failed r) = [''u2@x.io'']
        \<and> idPartition [''u1@x.io'', ''u2@x.io'']
             (map address (successful r)) (map item (failed r)))"
proof -
  have echo: "\<forall>addr pw prov w acc. fst (registryApi addr pw prov w) = Inr acc
      \<longrightarrow> address acc = addr"
    by (auto simp: registryApi_def split: if_splits)
  have ids: "generateEmailAddresses (simEnv (1000, [''user-1000-2@x.io''])) (simOptions 2)
      = [''user-1000-1@x.io'', ''user-1000-2@x.io'']"
    and pids: "patternEmails (simEnv (1000, [''u2@x.io''])) ''u{index}@x.io'' 2
      = [''u1@x.io'', ''u2@x.io'']"
    and s1: "map address (successful (projr (outcome takenRun))) = [''user-1000-1@x.io'']"
    and f1: "map item (failed (projr (outcome takenRun))) = [''user-1000-2@x.io'']"
    and s2: "map address (successful (projr (outcome takenPatternRun))) = [''u1@x.io'']"
    and f2: "map item (failed (projr (outcome takenPatternRun))) = [''u2@x.io'']"
    by code_simp+
  note t1 = results_account_for_every_task
    [of simRuntime twoRetriesManager registryApi simEnv "simOptions 2"
        "(1000, [''user-1000-2@x.io''])" "''u{index}@x.io''" 2 "''pw''",
     folded takenRun_def, THEN conjunct1]
  note t2 = results_account_for_every_task
    [of simRuntime twoRetriesManager registryApi simEnv "simOptions 2"
        "(1000, [''u2@x.io''])" "''u{index}@x.io''" 2 "''pw''",
     folded takenPatternRun_def, THEN conjunct2]
  from t1 obtain r1 where r1: "outcome takenRun = Inr r1
      \<and> length (successful r1) + length (failed r1)
          = length (generateEmailAddresses (simEnv (1000, [''user-1000-2@x.io''])) (simOptions 2))
      \<and> ((\<forall>addr pw prov w acc. fst (registryApi addr pw prov w) = Inr acc
              \<longrightarrow> address acc = addr)
           \<longrightarrow> accountsFor
                 (generateEmailAddresses (simEnv (1000, [''user-1000-2@x.io''])) (simOptions 2))
                 r1)" ..
  from t2 obtain r2 where r2: "outcome takenPatternRun = Inr r2
      \<and> length (successful r2) + length (failed r2)
          = length (patternEmails (simEnv (1000, [''u2@x.io''])) ''u{index}@x.io'' 2)
      \<and> ((\<forall>addr pw prov w acc. fst (registryApi addr pw prov w) = Inr acc
              \<longrightarrow> address acc = addr)
           \<longrightarrow> accountsFor (patternEmails (simEnv (1000, [''u2@x.io''])) ''u{index}@x.io'' 2)
                 r2)" ..
  from r1 have o1: "outcome takenRun = Inr r1" by (rule conjunct1)
  from r2 have o2: "outcome takenPatternRun = Inr r2" by (rule conjunct1)
  from r1 [THEN conjunct2, THEN conjunct2, THEN mp, OF echo]
  have a1: "accountsFor [''user-1000-1@x.io'', ''user-1000-2@x.io''] r1"
    unfolding ids .
  from r2 [THEN conjunct2, THEN conjunct2, THEN mp, OF echo]
  have a2: "accountsFor [''u1@x.io'', ''u2@x.io''] r2"
    unfolding pids .
  from a1 have p1: "idPartition [''user-1000-1@x.io'', ''user-1000-2@x.io'']
      (map address (successful r1)) (map item (failed r1))"
    by (simp add: accountsFor_def)
  from a2 have p2: "idPartition [''u1@x.io'', ''u2@x.io'']
      (map address (successful r2)) (map item (failed r2))"
    by (simp add: accountsFor_def)
  from o1 s1 f1 have e1: "map address (successful r1) = [''user-1000-1@x.io'']"
    "map item (failed r1) = [''user-1000-2@x.io'']" by simp_all
  from o2 s2 f2 have e2: "map address (successful r2) = [''u1@x.io'']"
    "map item (failed r2) = [''u2@x.io'']" by simp_all
  have A: "\<exists>r. outcome takenRun = Inr r
        \<and> map address (successful r) = [''user-1000-1@x.io'']
        \<and> map item (failed r) = [''user-1000-2@x.io'']
        \<and> idPartition [''user-1000-1@x.io'', ''user-1000-2@x.io'']
             (map address (successful r)) (map item (failed r))"
    using o1 e1 p1 by (intro exI [of _ r1] conjI)
  have B: "\<exists>r. outcome takenPatternRun = Inr r
        \<and> map address (successful r) = [''u1@x.io'']
        \<and> map item (failed r) = [''u2@x.io'']
        \<and> idPartition [''u1@x.io'', ''u2@x.io'']
             (map address (successful r)) (map item (failed r))"
    using o2 e2 p2 by (intro exI [of _ r2] conjI)
  from A B show ?thesis by (rule conjI)
qed

section \<open>Properties of the rate limiter of the test client\<close>

text \<open>
  A call that has to wait stores the time of its dispatch only when its timer fires.
  Callers that call before that time read the same \<open>lastRequestTime\<close> and compute the
  same waiting time, so their requests are dispatched together.
\<close>

text \<open>
  One sequential caller is spaced: every schedule of the events of a single caller
  leaves consecutive dispatches at least \<open>d\<close> apart.
\<close>

lemma spaced_snoc:
  "spaced d (ts @ [t]) \<longleftrightarrow> spaced d ts \<and> (ts \<noteq> [] \<longrightarrow> d \<le> t - last ts)"
  by (induction d ts rule: spaced.induct) auto

lemma step_one_caller:
  assumes "waitsOrIdle d k s" and "byCaller k e" and "step d e s = Some s'"
  shows "waitsOrIdle d k s'"
proof (cases e)
  case (Call k' t)
  with assms(2) have k: "k' = k" by (simp add: byCaller_def)
  from assms(3) Call k have idle: "timers s = []"
    using assms(1) by (auto simp: waitsOrIdle_def split: if_splits)
  show ?thesis
  proof (cases "rateLimitWait d t (client s)")
    case None
    then have far: "d \<le> t - lastRequestTime (client s)"
      by (simp add: rateLimitWait_def Let_def split: if_splits)
    from assms(3) Call k None
    have s': "s' = s\<lparr>client := rateLimitDone t (client s), clock := t,
                     dispatches := dispatches s @ [(k, t)]\<rparr>"
      by (simp split: if_splits)
    show ?thesis
      unfolding s' using assms(1) idle far
      by (simp add: waitsOrIdle_def spaced_snoc rateLimitDone_def last_map)
  next
    case (Some waitTime)
    then have w: "t + waitTime = lastRequestTime (client s) + d"
      by (simp add: rateLimitWait_def Let_def split: if_splits)
    from assms(3) Call k Some
    have s': "s' = s\<lparr>clock := t, timers := timers s @ [(k, t + waitTime)]\<rparr>"
      by (simp split: if_splits)
    show ?thesis
      unfolding s' using assms(1) idle w
      by (simp add: waitsOrIdle_def)
  qed
next
  case (TimerFires k' t)
  with assms(2) have k: "k' = k" by (simp add: byCaller_def)
  from assms(3) TimerFires k have waiting: "timers s \<noteq> []"
    by (auto split: option.splits)
  with assms(1) have tm: "timers s = [(k, lastRequestTime (client s) + d)]"
    by (simp add: waitsOrIdle_def)
  from assms(3) TimerFires k tm
  have due: "lastRequestTime (client s) + d \<le> t"
    and s': "s' = s\<lparr>client := rateLimitDone t (client s), clock := t,
                     timers := filter (\<lambda>p. fst p \<noteq> k) (timers s),
                     dispatches := dispatches s @ [(k, t)]\<rparr>"
    by (simp_all split: if_splits)
  show ?thesis
    unfolding s' using assms(1) tm due
    by (simp add: waitsOrIdle_def spaced_snoc rateLimitDone_def last_map)
qed

lemma run_one_caller:
  "waitsOrIdle d k s \<Longrightarrow> list_all (byCaller k) es \<Longrightarrow> run d es s = Some s'
     \<Longrightarrow> waitsOrIdle d k s'"
proof (induction es arbitrary: s)
  case Nil
  then show ?case by simp
next
  case (Cons e es)
  from Cons.prems(3) obtain s1 where s1: "step d e s = Some s1" "run d es s1 = Some s'"
    by (auto split: option.splits)
  from Cons.prems(2) have "byCaller k e" by simp
  from step_one_caller [OF Cons.prems(1) this s1(1)] have "waitsOrIdle d k s1" .
  with Cons.IH [of s1] Cons.prems(2) s1(2) show ?case by simp
qed

lemma one_caller_is_spaced:
  assumes "list_all (byCaller k) es" and "run d es (newClient t0) = Some s"
  shows "spaced d (map snd (dispatches s))"
proof -
  have "waitsOrIdle d k (newClient t0)"
    by (simp add: waitsOrIdle_def newClient_def)
  from run_one_caller [OF this assms] show ?thesis
    by (simp add: waitsOrIdle_def)
qed

text \<open>
  Claim C2 fails for concurrent callers. Three callers of one client with
  \<open>requestDelay = 1000\<close> call \<^verbatim>\<open>request\<close> at 5000: the first is dispatched at once,
  the other two both wait 1000 ms and are both dispatched at 6000, 0 ms apart.
\<close>

theorem concurrent_callers_are_not_spaced:
  "map_option dispatches (run 1000 concurrentCallers (newClient 5000))
     = Some [(1, 5000), (2, 6000), (3, 6000)]
   \<and> map_option (requestCount \<circ> client) (run 1000 concurrentCallers (newClient 5000)) = Some 3
   \<and> \<not> spaced 1000 [5000, 6000, 6000]"
  by (simp add: concurrentCallers_def newClient_def rateLimitWait_def rateLimitDone_def)

end
